theory Spec2Isabelle
  imports Complex_Main "HOL-Library.AList" "HOL-Library.Sublist"
begin

section \<open>JavaScript values\<close>

text \<open>
  A JavaScript string is modelled by \<^typ>\<open>string\<close>, one \<^typ>\<open>char\<close> per code unit, so
  the identifiers covered are those over the code units 0 to 255 (tenant identifiers are
  external codes \<open>T-<n>\<close> or hyphenated-hex UUIDs).

  A JavaScript number is an IEEE 754 double. A finite double is modelled by the
  \<^typ>\<open>rat\<close> it denotes, zero having no sign; the numbers the callers supply (amounts,
  limits, rollout percentages) are finite. What the code computes is a \<open>jsnum\<close>: every
  arithmetic operation gives the double nearest to the exact result, a tie going to the
  even significand, or an infinity or NaN.
\<close>

datatype jsnum = Num rat | PosInfinity | NegInfinity | NaN

definition round_half_even :: "rat \<Rightarrow> int" where
  "round_half_even q =
     (let f = \<lfloor>q\<rfloor>; r = q - of_int f
      in if r < 1 / 2 then f else if 1 / 2 < r then f + 1 else if even f then f else f + 1)"

function scale_down :: "rat \<Rightarrow> int \<Rightarrow> rat \<times> int" where
  \<comment> \<open>halves a significand of 54 bits or more, counting the exponent up\<close>
  "scale_down a e = (if 2 ^ 53 \<le> a then scale_down (a / 2) (e + 1) else (a, e))"
  by pat_completeness auto
termination
proof (relation "measure (\<lambda>(a, e). nat \<lfloor>a\<rfloor>)")
  show "wf (measure (\<lambda>(a, e). nat \<lfloor>a\<rfloor>))"
    by simp
next
  fix a :: rat and e :: int
  assume big: "2 ^ 53 \<le> a"
  then have "a / 2 \<le> a - 1"
    by simp
  then have "\<lfloor>a / 2\<rfloor> \<le> \<lfloor>a - 1\<rfloor>"
    by (rule floor_mono)
  moreover have "\<lfloor>a - 1\<rfloor> = \<lfloor>a\<rfloor> - 1"
    by simp
  moreover have "1 \<le> \<lfloor>a\<rfloor>"
    using big by (simp add: le_floor_iff)
  ultimately show "((a / 2, e + 1), (a, e)) \<in> measure (\<lambda>(a, e). nat \<lfloor>a\<rfloor>)"
    by simp
qed

function scale_up :: "rat \<Rightarrow> int \<Rightarrow> rat \<times> int" where
  \<comment> \<open>doubles a significand below 53 bits, down to the exponent of the subnormals\<close>
  "scale_up a e = (if a < 2 ^ 52 \<and> - 1074 < e then scale_up (a * 2) (e - 1) else (a, e))"
  by pat_completeness auto
termination
  by (relation "measure (\<lambda>(a, e). nat (e + 1074))") auto

declare scale_down.simps [simp del] scale_up.simps [simp del]

definition pow2 :: "int \<Rightarrow> rat" where
  "pow2 e = (if 0 \<le> e then 2 ^ nat e else 1 / 2 ^ nat (- e))"

definition round_to_double :: "rat \<Rightarrow> jsnum" where
  \<comment> \<open>round to nearest, ties to even, with 53 bits of significand, exponents from -1074
      to 971, and overflow to an infinity\<close>
  "round_to_double x =
     (if x = 0 then Num 0
      else let (a1, e1) = scale_down \<bar>x\<bar> 0;
               (a2, e2) = scale_up a1 e1;
               y = of_int (round_half_even a2) * pow2 e2
           in if 2 ^ 1024 \<le> y then (if 0 < x then PosInfinity else NegInfinity)
              else Num (if 0 < x then y else - y))"

fun js_negate :: "jsnum \<Rightarrow> jsnum" where
  "js_negate (Num x) = Num (- x)"
| "js_negate PosInfinity = NegInfinity"
| "js_negate NegInfinity = PosInfinity"
| "js_negate NaN = NaN"

fun js_plus :: "jsnum \<Rightarrow> jsnum \<Rightarrow> jsnum" where
  \<comment> \<open>\<open>x + y\<close>\<close>
  "js_plus (Num a) (Num b) = round_to_double (a + b)"
| "js_plus NaN y = NaN"
| "js_plus x NaN = NaN"
| "js_plus PosInfinity NegInfinity = NaN"
| "js_plus NegInfinity PosInfinity = NaN"
| "js_plus PosInfinity y = PosInfinity"
| "js_plus NegInfinity y = NegInfinity"
| "js_plus (Num a) y = y"

fun js_times :: "jsnum \<Rightarrow> jsnum \<Rightarrow> jsnum" where
  \<comment> \<open>\<open>x * y\<close>\<close>
  "js_times (Num a) (Num b) = round_to_double (a * b)"
| "js_times NaN y = NaN"
| "js_times x NaN = NaN"
| "js_times (Num a) y = (if a = 0 then NaN else if 0 < a then y else js_negate y)"
| "js_times x (Num b) = (if b = 0 then NaN else if 0 < b then x else js_negate x)"
| "js_times PosInfinity y = y"
| "js_times NegInfinity y = js_negate y"

fun js_div :: "jsnum \<Rightarrow> jsnum \<Rightarrow> jsnum" where
  \<comment> \<open>\<open>x / y\<close>\<close>
  "js_div (Num a) (Num b) =
     (if b = 0 then (if a = 0 then NaN else if 0 < a then PosInfinity else NegInfinity)
      else round_to_double (a / b))"
| "js_div NaN y = NaN"
| "js_div x NaN = NaN"
| "js_div (Num a) y = Num 0"
| "js_div x (Num b) = (if 0 \<le> b then x else js_negate x)"
| "js_div x y = NaN"

fun js_ge :: "jsnum \<Rightarrow> rat \<Rightarrow> bool" where
  \<comment> \<open>\<open>x >= l\<close> for a finite \<open>l\<close>\<close>
  "js_ge (Num a) l = (l \<le> a)"
| "js_ge PosInfinity l = True"
| "js_ge NegInfinity l = False"
| "js_ge NaN l = False"

fun Math_round :: "jsnum \<Rightarrow> jsnum" where
  \<comment> \<open>\<open>Math.round\<close>: the nearest integer, a tie going up; the result is exact\<close>
  "Math_round (Num x) = Num (of_int \<lfloor>x + 1 / 2\<rfloor>)"
| "Math_round PosInfinity = PosInfinity"
| "Math_round NegInfinity = NegInfinity"
| "Math_round NaN = NaN"

fun Math_min :: "rat \<Rightarrow> jsnum \<Rightarrow> jsnum" where
  \<comment> \<open>\<open>Math.min(a, x)\<close> for a finite \<open>a\<close>\<close>
  "Math_min a (Num x) = Num (min a x)"
| "Math_min a PosInfinity = Num a"
| "Math_min a NegInfinity = NegInfinity"
| "Math_min a NaN = NaN"

definition js_or_str :: "string option \<Rightarrow> string \<Rightarrow> string" where
  \<comment> \<open>\<open>x || d\<close> on an optional string: undefined, null and the empty string are falsy\<close>
  "js_or_str x d = (case x of None \<Rightarrow> d | Some s \<Rightarrow> if s = [] then d else s)"

definition js_or_num :: "rat option \<Rightarrow> rat \<Rightarrow> rat" where
  \<comment> \<open>\<open>x || d\<close> on an optional finite number: undefined and 0 are falsy\<close>
  "js_or_num x d = (case x of None \<Rightarrow> d | Some n \<Rightarrow> if n = 0 then d else n)"

definition js_or_jsnum :: "jsnum option \<Rightarrow> jsnum \<Rightarrow> jsnum" where
  \<comment> \<open>\<open>x || d\<close> on an optional number: undefined, 0 and NaN are falsy\<close>
  "js_or_jsnum x d =
     (case x of None \<Rightarrow> d | Some n \<Rightarrow> if n = Num 0 \<or> n = NaN then d else n)"

definition includes_opt :: "string list option \<Rightarrow> string \<Rightarrow> bool" where
  \<comment> \<open>\<open>xs?.includes(x)\<close> used as a condition: an absent list is falsy\<close>
  "includes_opt xs x = (case xs of None \<Rightarrow> False | Some l \<Rightarrow> x \<in> set l)"

definition split_T_0 :: "string \<Rightarrow> string" where
  \<comment> \<open>\<open>s.split('T')[0]\<close>\<close>
  "split_T_0 s = takeWhile (\<lambda>c. c \<noteq> CHR ''T'') s"

definition toLowerCase :: "string \<Rightarrow> string" where
  "toLowerCase s =
     map (\<lambda>c. let n = (of_char c :: nat)
              in if (65 \<le> n \<and> n \<le> 90) \<or> (192 \<le> n \<and> n \<le> 222 \<and> n \<noteq> 215)
                 then char_of (n + 32) else c) s"

fun String_nat :: "nat \<Rightarrow> string" where
  \<comment> \<open>\<open>String(n)\<close> for a natural number\<close>
  "String_nat n =
     (if n < 10 then [char_of (48 + n)]
      else String_nat (n div 10) @ [char_of (48 + n mod 10)])"

declare String_nat.simps [simp del]

definition padStart :: "nat \<Rightarrow> char \<Rightarrow> string \<Rightarrow> string" where
  "padStart n c s = replicate (n - length s) c @ s"

section \<open>The wall clock\<close>

record clock =
  getFullYear :: nat
  getMonth :: nat
  toISOString :: string

definition getCurrentPeriod :: "clock \<Rightarrow> string" where
  "getCurrentPeriod now =
     String_nat (getFullYear now) @ ''-'' @ padStart 2 (CHR ''0'') (String_nat (getMonth now + 1))"

section \<open>Stored data (models.tsx)\<close>

text \<open>
  A usage record has the fields of \<open>UsageRecord\<close> when the service writes it and the
  fields \<open>metric\<close>, \<open>current\<close>, \<open>limit\<close>, \<open>period\<close>, \<open>updated_at\<close> when a route writes it;
  the record type has them all, a field the object lacks being \<open>None\<close>. Field names carry
  the initial of their record.
\<close>

record usage_record =
  u_id :: "string option"
  u_tenantId :: "string option"
  u_metric :: string
  u_period :: string
  u_current :: jsnum
  u_limit :: rat
  u_percentage :: "jsnum option"
  u_daily :: "(string \<times> jsnum) list option"
  u_updatedAt :: "string option"
  u_updated_at :: "string option"

datatype flag_status = Enabled | Disabled | Beta

record feature_flag =
  f_id :: string
  f_key :: string
  f_name :: string
  f_description :: string
  f_scope :: "string option"
  f_category :: "string option"
  f_status :: flag_status
  f_enabledForPlans :: "string list option"
  f_enabledForTenants :: "string list option"
  f_disabledForTenants :: "string list option"
  f_rolloutPercentage :: "rat option"

record tenant =
  t_id :: string
  t_uuid :: "string option"
  t_name :: string
  t_status :: string
  t_plan :: string
  t_email :: string
  t_phone :: string
  t_address :: string
  t_city :: string
  t_state :: string
  t_country :: string
  t_postalCode :: string
  t_website :: string
  t_industry :: string
  t_size :: string
  t_timezone :: string
  t_currency :: string
  t_logo :: string
  t_primaryColor :: string
  t_createdAt :: "string option"
  t_created :: string
  t_lastActiveAt :: "string option"

record plan_data =
  p_limits :: "(string \<times> rat) list option"

text \<open>The rows of the relational \<open>tenants\<close> table and their JSON settings column.\<close>

record settings =
  s_external_id :: "string option"
  s_plan :: "string option"
  s_address :: "string option"
  s_city :: "string option"
  s_state :: "string option"
  s_country :: "string option"
  s_postal_code :: "string option"
  s_website :: "string option"
  s_industry :: "string option"
  s_size :: "string option"
  s_timezone :: "string option"
  s_currency :: "string option"
  s_logo :: "string option"
  s_primary_color :: "string option"
  s_last_active_at :: "string option"

record pg_tenant =
  pg_id :: string
  pg_name :: string
  pg_status :: string
  pg_email :: "string option"
  pg_phone :: "string option"
  pg_created_at :: "string option"
  pg_settings :: "settings option"

definition settings_field :: "(settings \<Rightarrow> string option) \<Rightarrow> pg_tenant \<Rightarrow> string option" where
  \<comment> \<open>\<open>pgTenant.settings?.field\<close>\<close>
  "settings_field f r = (case pg_settings r of None \<Rightarrow> None | Some s \<Rightarrow> f s)"

section \<open>The two backends\<close>

datatype kvval = VTenant tenant | VUsage usage_record | VPlan plan_data | VFlag feature_flag

datatype backend_op =
    KvGet string
  | KvSet string
  | KvGetByPrefix string
  | PgSelectById string
  | PgSelectByExternalId string

text \<open>
  The state of the system: the contents of the key-value store, the rows of the tenants
  table, and the calls made to the two backends so far, oldest first.
\<close>

record world =
  kv :: "(string \<times> kvval) list"
  pg_tenants :: "pg_tenant list"
  calls :: "backend_op list"

text \<open>
  Modelled from the spec: \<open>kv_store.tsx\<close>, which the services and routes import and which
  is not among the sources. Section 6 gives its contract: \<open>get(key) -> value | null\<close>,
  \<open>set(key, value) -> void\<close>, \<open>getByPrefix(prefix) -> list of values\<close>. The store is an
  association list, \<open>set\<close> replacing the value of a key in place; each call is logged.
\<close>

definition kv_get :: "string \<Rightarrow> world \<Rightarrow> kvval option \<times> world" where
  \<comment> \<open>Modelled from the spec: \<open>get(key) -> value | null\<close> of \<open>kv_store.tsx\<close>\<close>
  "kv_get key w = (map_of (kv w) key, w\<lparr>calls := calls w @ [KvGet key]\<rparr>)"

definition kv_set :: "string \<Rightarrow> kvval \<Rightarrow> world \<Rightarrow> world" where
  \<comment> \<open>Modelled from the spec: \<open>set(key, value) -> void\<close> of \<open>kv_store.tsx\<close>\<close>
  "kv_set key v w = w\<lparr>kv := AList.update key v (kv w), calls := calls w @ [KvSet key]\<rparr>"

definition kv_getByPrefix :: "string \<Rightarrow> world \<Rightarrow> kvval list \<times> world" where
  \<comment> \<open>Modelled from the spec: \<open>getByPrefix(prefix) -> list of values\<close> of \<open>kv_store.tsx\<close>\<close>
  "kv_getByPrefix p w =
     (map snd (filter (\<lambda>e. prefix p (fst e)) (kv w)), w\<lparr>calls := calls w @ [KvGetByPrefix p]\<rparr>)"

text \<open>
  Modelled from the spec: the relational store client (section 6, relational store
  contract): the tenants table queried by primary key equality and by equality on the
  \<open>external_id\<close> inside the settings column. \<open>single\<close> and \<open>maybeSingle\<close> both give the
  row when exactly one row matches and no data otherwise; the client reports a failed
  query in the \<open>error\<close> field beside a null \<open>data\<close>, which \<open>resolve\<close> does not read.
\<close>

definition single :: "pg_tenant list \<Rightarrow> pg_tenant option" where
  \<comment> \<open>Modelled from the spec: the \<open>data\<close> of \<open>.single()\<close> and of \<open>.maybeSingle()\<close>\<close>
  "single rows = (case rows of [r] \<Rightarrow> Some r | _ \<Rightarrow> None)"

definition pg_select_by_id :: "string \<Rightarrow> world \<Rightarrow> pg_tenant option \<times> world" where
  \<comment> \<open>Modelled from the spec: the tenants table queried by primary key equality,
      \<open>.from('tenants').select('*').eq('id', identifier).single()\<close>\<close>
  "pg_select_by_id ident w =
     (single (filter (\<lambda>r. pg_id r = ident) (pg_tenants w)),
      w\<lparr>calls := calls w @ [PgSelectById ident]\<rparr>)"

definition pg_select_by_external_id :: "string \<Rightarrow> world \<Rightarrow> pg_tenant option \<times> world" where
  \<comment> \<open>Modelled from the spec: the tenants table queried by an equality filter on a path of
      the JSON column,
      \<open>.from('tenants').select('*').eq('settings->>external_id', identifier).maybeSingle()\<close>\<close>
  "pg_select_by_external_id ident w =
     (single (filter (\<lambda>r. settings_field s_external_id r = Some ident) (pg_tenants w)),
      w\<lparr>calls := calls w @ [PgSelectByExternalId ident]\<rparr>)"

text \<open>
  The store holds every kind of record under one key space; the key prefix decides the
  kind. A value of another kind under a key is read as no record.
\<close>

definition as_usage :: "kvval option \<Rightarrow> usage_record option" where
  "as_usage v = (case v of Some (VUsage r) \<Rightarrow> Some r | _ \<Rightarrow> None)"

definition as_tenant :: "kvval option \<Rightarrow> tenant option" where
  "as_tenant v = (case v of Some (VTenant t) \<Rightarrow> Some t | _ \<Rightarrow> None)"

definition as_plan :: "kvval option \<Rightarrow> plan_data option" where
  "as_plan v = (case v of Some (VPlan p) \<Rightarrow> Some p | _ \<Rightarrow> None)"

fun as_flags :: "kvval list \<Rightarrow> feature_flag list" where
  "as_flags [] = []"
| "as_flags (VFlag f # vs) = f # as_flags vs"
| "as_flags (_ # vs) = as_flags vs"

section \<open>UsageService (data-service.tsx)\<close>

text \<open>
  The data service layer is the second document of \<open>src/ROUTE_REFACTORING_SUMMARY.md\<close>.
  Every operation takes the clock it reads and the world it runs in, and returns its
  result with the world it leaves. An operation reads the clock once. The value that
  \<open>record\<close> stores may be one that \<open>increment\<close> has computed, so it is a \<open>jsnum\<close>; amounts and
  limits are finite.
\<close>

definition UsageService_get ::
  "clock \<Rightarrow> string \<Rightarrow> string \<Rightarrow> string option \<Rightarrow> world \<Rightarrow> usage_record option \<times> world" where
  "UsageService_get now tenantId metric period w =
     (let p = js_or_str period (getCurrentPeriod now);
          (v, w1) = kv_get (''usage:'' @ tenantId @ '':'' @ metric @ '':'' @ p) w
      in (as_usage v, w1))"

definition UsageService_record ::
  "clock \<Rightarrow> string \<Rightarrow> string \<Rightarrow> jsnum \<Rightarrow> rat \<Rightarrow> string option \<Rightarrow> world \<Rightarrow> usage_record \<times> world" where
  "UsageService_record now tenantId metric val limit period w =
     (let p = js_or_str period (getCurrentPeriod now);
          ident = ''usage:'' @ tenantId @ '':'' @ metric @ '':'' @ p;
          today = split_T_0 (toISOString now);
          (existing, w1) = kv_get ident w;
          daily = (case as_usage existing of
                     None \<Rightarrow> []
                   | Some e \<Rightarrow> (case u_daily e of None \<Rightarrow> [] | Some d \<Rightarrow> d));
          daily' = AList.update today val daily;
          usage = \<lparr> u_id = Some ident,
                    u_tenantId = Some tenantId,
                    u_metric = metric,
                    u_period = p,
                    u_current = val,
                    u_limit = limit,
                    u_percentage =
                      Some (Math_min 100 (Math_round (js_times (js_div val (Num limit)) (Num 100)))),
                    u_daily = Some daily',
                    u_updatedAt = Some (toISOString now),
                    u_updated_at = None \<rparr>
      in (usage, kv_set ident (VUsage usage) w1))"

definition UsageService_increment ::
  "clock \<Rightarrow> string \<Rightarrow> string \<Rightarrow> rat option \<Rightarrow> rat \<Rightarrow> string option \<Rightarrow> world \<Rightarrow> usage_record \<times> world" where
  "UsageService_increment now tenantId metric amount limit period w =
     (let a = (case amount of None \<Rightarrow> 1 | Some x \<Rightarrow> x);
          (existing, w1) = UsageService_get now tenantId metric period w;
          currentValue =
            (case existing of None \<Rightarrow> Num 0 | Some e \<Rightarrow> js_or_jsnum (Some (u_current e)) (Num 0))
      in UsageService_record now tenantId metric (js_plus currentValue (Num a)) limit period w1)"

definition UsageService_isOverLimit ::
  "clock \<Rightarrow> string \<Rightarrow> string \<Rightarrow> string option \<Rightarrow> world \<Rightarrow> bool \<times> world" where
  "UsageService_isOverLimit now tenantId metric period w =
     (let (usage, w1) = UsageService_get now tenantId metric period w
      in (case usage of None \<Rightarrow> False | Some u \<Rightarrow> js_ge (u_current u) (u_limit u), w1))"

section \<open>Usage routes (usage.tsx)\<close>

text \<open>The route-level usage tracker behind the two increment endpoints.\<close>

definition trackUsage :: "clock \<Rightarrow> string \<Rightarrow> string \<Rightarrow> rat option \<Rightarrow> world \<Rightarrow> world" where
  "trackUsage now tenantId metric amount0 w =
     (let amount = (case amount0 of None \<Rightarrow> 1 | Some a \<Rightarrow> a);
          period = String_nat (getFullYear now) @ ''-''
                     @ padStart 2 (CHR ''0'') (String_nat (getMonth now + 1));
          key = ''usage:'' @ tenantId @ '':'' @ period @ '':'' @ metric;
          (existing, w1) = kv_get key w
      in case as_usage existing of
           None \<Rightarrow>
             (let (tenant, w2) = kv_get (''tenant:'' @ tenantId) w1;
                  (limit, w3) =
                    (case as_tenant tenant of
                       None \<Rightarrow> (1000, w2)
                     | Some t \<Rightarrow>
                         (let planKey = ''plan:plan_'' @ toLowerCase (t_plan t);
                              (planData, w3) = kv_get planKey w2
                          in case as_plan planData of
                               None \<Rightarrow> (1000, w3)
                             | Some pd \<Rightarrow>
                                 (case p_limits pd of
                                    None \<Rightarrow> (1000, w3)
                                  | Some limits \<Rightarrow>
                                      (let metricKey =
                                             (if metric = ''api_calls'' then ''apiCalls'' else metric)
                                       in (js_or_num (map_of limits metricKey) 1000, w3)))))
              in kv_set key
                   (VUsage \<lparr> u_id = None,
                             u_tenantId = None,
                             u_metric = metric,
                             u_period = period,
                             u_current = Num amount,
                             u_limit = limit,
                             u_percentage = None,
                             u_daily = None,
                             u_updatedAt = None,
                             u_updated_at = Some (toISOString now) \<rparr>) w3)
         | Some e \<Rightarrow>
             kv_set key
               (VUsage (e\<lparr> u_current :=
                             js_plus (js_or_jsnum (Some (u_current e)) (Num 0)) (Num amount),
                           u_updated_at := Some (toISOString now) \<rparr>)) w1)"




section \<open>FeatureFlagService (data-service.tsx)\<close>

text \<open>
  The values under the \<open>flag:\<close> prefix are taken to have the shape of \<open>FeatureFlag\<close>.
\<close>

definition FeatureFlagService_list :: "world \<Rightarrow> feature_flag list \<times> world" where
  "FeatureFlagService_list w = (let (vs, w1) = kv_getByPrefix ''flag:'' w in (as_flags vs, w1))"

definition charCodeSum :: "string \<Rightarrow> nat" where
  \<comment> \<open>\<open>tenantId.split('').reduce((acc, char) => acc + char.charCodeAt(0), 0)\<close>\<close>
  "charCodeSum tenantId = foldl (\<lambda>acc char. acc + of_char char) 0 tenantId"

definition FeatureFlagService_isEnabled ::
  "string \<Rightarrow> string \<Rightarrow> string option \<Rightarrow> world \<Rightarrow> bool \<times> world" where
  "FeatureFlagService_isEnabled flagKey tenantId planType w =
     (let (flags, w1) = FeatureFlagService_list w
      in (case find (\<lambda>f. f_key f = flagKey) flags of
            None \<Rightarrow> False
          | Some flag \<Rightarrow>
              if f_status flag = Disabled then False
              else if includes_opt (f_disabledForTenants flag) tenantId then False
              else if includes_opt (f_enabledForTenants flag) tenantId then True
              else if (case planType of
                         None \<Rightarrow> False
                       | Some pt \<Rightarrow>
                           pt \<noteq> [] \<and>
                           (case f_enabledForPlans flag of
                              None \<Rightarrow> False
                            | Some plans \<Rightarrow> pt \<notin> set plans))
                   then False
              else (case f_rolloutPercentage flag of
                      None \<Rightarrow> f_status flag = Enabled
                    | Some rolloutPercentage \<Rightarrow>
                        if rolloutPercentage < 100
                        then (let hash = charCodeSum tenantId;
                                  percentage = hash mod 100
                              in of_nat percentage < rolloutPercentage)
                        else f_status flag = Enabled), w1))"

section \<open>TenantService.resolve (data-service.tsx)\<close>

datatype source = Src_kv | Src_postgres

definition isHexDigit :: "char \<Rightarrow> bool" where
  \<comment> \<open>\<open>[0-9a-f]\<close> under the \<open>i\<close> flag\<close>
  "isHexDigit c = (c \<in> set ''0123456789abcdefABCDEF'')"

fun match_hex :: "nat \<Rightarrow> string \<Rightarrow> string option" where
  \<comment> \<open>\<open>[0-9a-f]{n}\<close>: the rest of the input after \<open>n\<close> hex digits\<close>
  "match_hex 0 s = Some s"
| "match_hex (Suc n) [] = None"
| "match_hex (Suc n) (c # s) = (if isHexDigit c then match_hex n s else None)"

fun match_dash :: "string \<Rightarrow> string option" where
  "match_dash [] = None"
| "match_dash (c # s) = (if c = CHR ''-'' then Some s else None)"

definition matches_uuid :: "string \<Rightarrow> bool" where
  \<comment> \<open>\<open>/^[0-9a-f]{8}-[0-9a-f]{4}-[0-9a-f]{4}-[0-9a-f]{4}-[0-9a-f]{12}$/i\<close>\<close>
  "matches_uuid s =
     (Option.bind (Option.bind (Option.bind (Option.bind (Option.bind (Option.bind
        (Option.bind (Option.bind (match_hex 8 s) match_dash) (match_hex 4)) match_dash)
        (match_hex 4)) match_dash) (match_hex 4)) match_dash) (match_hex 12) = Some [])"

definition convert_by_uuid :: "clock \<Rightarrow> pg_tenant \<Rightarrow> tenant" where
  \<comment> \<open>the conversion to the KV format after the query by id\<close>
  "convert_by_uuid now pgTenant =
     \<lparr> t_id = js_or_str (settings_field s_external_id pgTenant) (pg_id pgTenant),
       t_uuid = Some (pg_id pgTenant),
       t_name = pg_name pgTenant,
       t_status = pg_status pgTenant,
       t_plan = js_or_str (settings_field s_plan pgTenant) ''Trial'',
       t_email = js_or_str (pg_email pgTenant) [],
       t_phone = js_or_str (pg_phone pgTenant) [],
       t_address = js_or_str (settings_field s_address pgTenant) [],
       t_city = js_or_str (settings_field s_city pgTenant) [],
       t_state = js_or_str (settings_field s_state pgTenant) [],
       t_country = js_or_str (settings_field s_country pgTenant) [],
       t_postalCode = js_or_str (settings_field s_postal_code pgTenant) [],
       t_website = js_or_str (settings_field s_website pgTenant) [],
       t_industry = js_or_str (settings_field s_industry pgTenant) [],
       t_size = js_or_str (settings_field s_size pgTenant) [],
       t_timezone = js_or_str (settings_field s_timezone pgTenant) ''UTC'',
       t_currency = js_or_str (settings_field s_currency pgTenant) ''USD'',
       t_logo = js_or_str (settings_field s_logo pgTenant) [],
       t_primaryColor = js_or_str (settings_field s_primary_color pgTenant) ''#ea580c'',
       t_createdAt = pg_created_at pgTenant,
       t_created = js_or_str (map_option split_T_0 (pg_created_at pgTenant))
                     (split_T_0 (toISOString now)),
       t_lastActiveAt = settings_field s_last_active_at pgTenant \<rparr>"

definition convert_by_external_id :: "clock \<Rightarrow> pg_tenant \<Rightarrow> tenant" where
  \<comment> \<open>the conversion to the KV format after the query by external id\<close>
  "convert_by_external_id now pgTenant =
     \<lparr> t_id = js_or_str (settings_field s_external_id pgTenant) (pg_id pgTenant),
       t_uuid = Some (pg_id pgTenant),
       t_name = pg_name pgTenant,
       t_status = pg_status pgTenant,
       t_plan = js_or_str (settings_field s_plan pgTenant) ''Trial'',
       t_email = js_or_str (pg_email pgTenant) [],
       t_phone = js_or_str (pg_phone pgTenant) [],
       t_address = js_or_str (settings_field s_address pgTenant) [],
       t_city = js_or_str (settings_field s_city pgTenant) [],
       t_state = js_or_str (settings_field s_state pgTenant) [],
       t_country = js_or_str (settings_field s_country pgTenant) [],
       t_postalCode = js_or_str (settings_field s_postal_code pgTenant) [],
       t_website = js_or_str (settings_field s_website pgTenant) [],
       t_industry = js_or_str (settings_field s_industry pgTenant) [],
       t_size = js_or_str (settings_field s_size pgTenant) [],
       t_timezone = js_or_str (settings_field s_timezone pgTenant) ''UTC'',
       t_currency = js_or_str (settings_field s_currency pgTenant) ''USD'',
       t_logo = js_or_str (settings_field s_logo pgTenant) [],
       t_primaryColor = js_or_str (settings_field s_primary_color pgTenant) ''#ea580c'',
       t_createdAt = pg_created_at pgTenant,
       t_created = js_or_str (map_option split_T_0 (pg_created_at pgTenant))
                     (split_T_0 (toISOString now)),
       t_lastActiveAt = settings_field s_last_active_at pgTenant \<rparr>"

definition TenantService_resolve ::
  "clock \<Rightarrow> string \<Rightarrow> world \<Rightarrow> (tenant option \<times> source option) \<times> world" where
  "TenantService_resolve now identifier w =
     (let (v, w1) = kv_get (''tenant:'' @ identifier) w
      in case as_tenant v of
           Some tenant \<Rightarrow> ((Some tenant, Some Src_kv), w1)
         | None \<Rightarrow>
             (let (byId, w2) = (if matches_uuid identifier then pg_select_by_id identifier w1
                                else (None, w1))
              in case byId of
                   Some pgTenant \<Rightarrow>
                     ((Some (convert_by_uuid now pgTenant), Some Src_postgres), w2)
                 | None \<Rightarrow>
                     (let (byExt, w3) = pg_select_by_external_id identifier w2
                      in case byExt of
                           Some pgTenant \<Rightarrow>
                             ((Some (convert_by_external_id now pgTenant), Some Src_postgres), w3)
                         | None \<Rightarrow> ((None, None), w3))))"

section \<open>Feature routes (features.tsx)\<close>

text \<open>
  \<open>GET /tenants/:tenantId/features\<close>. The features listed are the records under the
  \<open>feature:\<close> prefix; they have the shape of a feature flag.
\<close>

record feature_view =
  v_id :: string
  v_key :: string
  v_name :: string
  v_description :: string
  v_enabled :: bool
  v_planLocked :: bool
  v_scope :: "string option"
  v_category :: "string option"

datatype 'a response = Json200 'a | Json404 string

definition feature_for_tenant :: "string list \<Rightarrow> tenant \<Rightarrow> feature_flag \<Rightarrow> feature_view" where
  \<comment> \<open>the function mapped over \<open>allFeatures\<close>\<close>
  "feature_for_tenant tenantIdentifiers tenant feature =
     (let isExplicitlyEnabled =
            list_ex (\<lambda>i. includes_opt (f_enabledForTenants feature) i) tenantIdentifiers;
          isExplicitlyDisabled =
            list_ex (\<lambda>i. includes_opt (f_disabledForTenants feature) i) tenantIdentifiers;
          enabled = (if isExplicitlyEnabled then True
                     else if isExplicitlyDisabled then False
                     else includes_opt (f_enabledForPlans feature) (t_plan tenant))
      in \<lparr> v_id = f_id feature,
           v_key = f_key feature,
           v_name = f_name feature,
           v_description = f_description feature,
           v_enabled = enabled,
           v_planLocked = (f_scope feature = Some ''plan''),
           v_scope = f_scope feature,
           v_category = f_category feature \<rparr>)"

definition get_tenant_features ::
  "clock \<Rightarrow> string \<Rightarrow> world \<Rightarrow> feature_view list response \<times> world" where
  "get_tenant_features now tenantId w =
     (let ((tenant0, src), w1) = TenantService_resolve now tenantId w
      in case tenant0 of
           None \<Rightarrow> (Json404 ''Tenant not found'', w1)
         | Some tenant \<Rightarrow>
             (let tenantIdentifiers =
                    [t_id tenant] @
                    (case t_uuid tenant of
                       None \<Rightarrow> []
                     | Some u \<Rightarrow> if u \<noteq> [] \<and> u \<noteq> t_id tenant then [u] else []);
                  (allFeatures, w2) = kv_getByPrefix ''feature:'' w1
              in (Json200 (map (feature_for_tenant tenantIdentifiers tenant) (as_flags allFeatures)),
                  w2)))"

section \<open>Example data\<close>

definition ex_now :: clock where
  "ex_now = \<lparr>getFullYear = 2025, getMonth = 9, toISOString = ''2025-10-03T10:00:00.000Z''\<rparr>"

definition ex_later :: clock where
  "ex_later = \<lparr>getFullYear = 2025, getMonth = 9, toISOString = ''2025-10-17T08:30:00.000Z''\<rparr>"

definition ex_empty :: world where
  "ex_empty = \<lparr>kv = [], pg_tenants = [], calls = []\<rparr>"

definition ex_usage :: usage_record where
  "ex_usage = \<lparr> u_id = Some ''usage:T-1:api_calls:2025-10'', u_tenantId = Some ''T-1'',
     u_metric = ''api_calls'', u_period = ''2025-10'', u_current = Num 100,
     u_limit = 100, u_percentage = Some (Num 100),
     u_daily = Some [(''2025-10-02'', Num 100)],
     u_updatedAt = Some ''2025-10-02T09:00:00.000Z'', u_updated_at = None\<rparr>"

definition ex_metered :: world where
  "ex_metered = \<lparr>kv = [(''usage:T-1:api_calls:2025-10'', VUsage ex_usage)], pg_tenants = [], calls = []\<rparr>"



definition ex_flag :: feature_flag where
  "ex_flag =
     \<lparr> f_id = ''ff_1'', f_key = ''x'', f_name = ''Advanced analytics'',
       f_description = ''Charts'', f_scope = Some ''plan'', f_category = None,
       f_status = Enabled,
       f_enabledForPlans = Some [''Pro''],
       f_enabledForTenants = Some [''T-9'', ''T-1''],
       f_disabledForTenants = Some [''T-9''],
       f_rolloutPercentage = Some 50 \<rparr>"

definition ex_dark_flag :: feature_flag where
  "ex_dark_flag =
     \<lparr> f_id = ''ff_2'', f_key = ''y'', f_name = ''Dark launch'',
       f_description = ''Hidden'', f_scope = Some ''global'', f_category = None,
       f_status = Disabled,
       f_enabledForPlans = None,
       f_enabledForTenants = None,
       f_disabledForTenants = None,
       f_rolloutPercentage = Some 50 \<rparr>"

definition ex_rollout_flag :: feature_flag where
  "ex_rollout_flag =
     \<lparr> f_id = ''ff_3'', f_key = ''z'', f_name = ''New checkout'',
       f_description = ''Gradual'', f_scope = Some ''global'', f_category = None,
       f_status = Beta,
       f_enabledForPlans = None,
       f_enabledForTenants = None,
       f_disabledForTenants = None,
       f_rolloutPercentage = Some 50 \<rparr>"

definition ex_tenant :: tenant where
  "ex_tenant =
     \<lparr> t_id = ''T-9'', t_uuid = None, t_name = ''Hotel Nine'', t_status = ''active'',
       t_plan = ''Basic'', t_email = '''', t_phone = '''', t_address = '''', t_city = '''',
       t_state = '''', t_country = '''', t_postalCode = '''', t_website = '''',
       t_industry = '''', t_size = '''', t_timezone = ''UTC'', t_currency = ''USD'',
       t_logo = '''', t_primaryColor = ''#ea580c'',
       t_createdAt = Some ''2025-01-05T08:00:00.000Z'', t_created = ''2025-01-05'',
       t_lastActiveAt = None \<rparr>"

definition ex_flagged :: world where
  "ex_flagged =
     \<lparr> kv = [(''tenant:T-9'', VTenant ex_tenant),
              (''flag:ff_1'', VFlag ex_flag),
              (''flag:ff_2'', VFlag ex_dark_flag),
              (''flag:ff_3'', VFlag ex_rollout_flag),
              (''feature:x'', VFlag ex_flag)],
       pg_tenants = [], calls = [] \<rparr>"

definition ex_closed_flag :: feature_flag where
  "ex_closed_flag =
     \<lparr> f_id = ''ff_4'', f_key = ''r0'', f_name = ''Not yet'',
       f_description = ''Rollout at 0'', f_scope = Some ''global'', f_category = None,
       f_status = Enabled,
       f_enabledForPlans = None,
       f_enabledForTenants = None,
       f_disabledForTenants = None,
       f_rolloutPercentage = Some 0 \<rparr>"

definition ex_open_flag :: feature_flag where
  "ex_open_flag =
     \<lparr> f_id = ''ff_5'', f_key = ''r100'', f_name = ''Everyone'',
       f_description = ''Rollout at 100'', f_scope = Some ''global'', f_category = None,
       f_status = Enabled,
       f_enabledForPlans = None,
       f_enabledForTenants = None,
       f_disabledForTenants = None,
       f_rolloutPercentage = Some 100 \<rparr>"

definition ex_rollouts :: world where
  "ex_rollouts =
     \<lparr> kv = [(''flag:ff_4'', VFlag ex_closed_flag), (''flag:ff_5'', VFlag ex_open_flag)],
       pg_tenants = [], calls = [] \<rparr>"

definition ex_settings :: settings where
  "ex_settings =
     \<lparr> s_external_id = Some ''T-7'', s_plan = Some ''Pro'', s_address = None, s_city = Some ''Lyon'',
       s_state = None, s_country = Some ''FR'', s_postal_code = None, s_website = None,
       s_industry = None, s_size = None, s_timezone = Some ''Europe/Paris'', s_currency = None,
       s_logo = None, s_primary_color = None, s_last_active_at = None \<rparr>"

definition ex_row :: pg_tenant where
  "ex_row =
     \<lparr> pg_id = ''3f2b8c1e-9a4d-4f6b-8e2a-1c5d7e9f0a1b'', pg_name = ''Hotel Seven'',
       pg_status = ''active'', pg_email = Some ''owner@seven.example'', pg_phone = None,
       pg_created_at = Some ''2024-11-20T07:15:00.000Z'', pg_settings = Some ex_settings \<rparr>"

definition ex_other_row :: pg_tenant where
  "ex_other_row =
     \<lparr> pg_id = ''0A1B2C3D-0000-4000-8000-ABCDEFabcdef'', pg_name = ''Hotel Eight'',
       pg_status = ''trial'', pg_email = None, pg_phone = None,
       pg_created_at = None, pg_settings = None \<rparr>"

definition ex_relational :: world where
  "ex_relational =
     \<lparr> kv = [(''tenant:T-9'', VTenant ex_tenant)], pg_tenants = [ex_other_row, ex_row],
       calls = [] \<rparr>"

definition ex_twin_row :: pg_tenant where
  \<comment> \<open>a second row with the external code of \<open>ex_row\<close>\<close>
  "ex_twin_row =
     \<lparr> pg_id = ''7c9e6679-7425-40de-944b-e07fc1f90ae7'', pg_name = ''Hotel Seven Annex'',
       pg_status = ''active'', pg_email = None, pg_phone = None,
       pg_created_at = None, pg_settings = Some ex_settings \<rparr>"

definition ex_shared_code :: world where
  "ex_shared_code = \<lparr> kv = [], pg_tenants = [ex_row, ex_twin_row], calls = [] \<rparr>"

section \<open>Rounding to a double\<close>

lemma round_half_even_near:
  assumes "of_int k - 1 / 2 < q" and "q < of_int k + 1 / 2"
  shows "round_half_even q = k"
proof (cases "of_int k \<le> q")
  case True
  then have "\<lfloor>q\<rfloor> = k"
    using assms(2) by (simp add: floor_eq_iff)
  then show ?thesis
    using assms(2) by (simp add: round_half_even_def Let_def)
next
  case False
  then have "\<lfloor>q\<rfloor> = k - 1"
    using assms(1) by (simp add: floor_eq_iff)
  then show ?thesis
    using assms(1) False by (simp add: round_half_even_def Let_def)
qed

lemma round_half_even_tie:
  assumes "q = of_int f + 1 / 2"
  shows "round_half_even q = (if even f then f else f + 1)"
proof -
  have "\<lfloor>q\<rfloor> = f"
    using assms by (simp add: floor_eq_iff)
  then show ?thesis
    using assms by (simp add: round_half_even_def Let_def)
qed

lemma scale_down_by:
  "2 ^ 52 \<le> a / 2 ^ n \<Longrightarrow> a / 2 ^ n < 2 ^ 53 \<Longrightarrow>
     scale_down a e = (a / 2 ^ n, e + int n)"
proof (induction n arbitrary: a e)
  case 0
  then show ?case
    by (simp add: scale_down.simps [of a e])
next
  case (Suc n)
  have "(2 :: rat) ^ 52 * 2 ^ Suc n \<le> a"
    using Suc.prems(1) by (simp add: pos_le_divide_eq)
  moreover have "(2 :: rat) ^ 53 \<le> 2 ^ 52 * 2 ^ Suc n"
    by simp
  ultimately have big: "2 ^ 53 \<le> a"
    by (rule order_trans [rotated])
  have "scale_down (a / 2) (e + 1) = (a / 2 / 2 ^ n, e + 1 + int n)"
    using Suc.prems by (intro Suc.IH) (simp_all add: field_simps)
  then show ?case
    using big by (simp add: scale_down.simps [of a e] field_simps)
qed

lemma scale_up_by:
  "2 ^ 52 \<le> a * 2 ^ n \<Longrightarrow> a * 2 ^ n < 2 ^ 53 \<Longrightarrow> int n - 1074 \<le> e \<Longrightarrow>
     scale_up a e = (a * 2 ^ n, e - int n)"
proof (induction n arbitrary: a e)
  case 0
  then show ?case
    by (simp add: scale_up.simps [of a e])
next
  case (Suc n)
  have "a * 2 * 2 ^ n < 2 ^ 53"
    using Suc.prems(2) by (simp add: mult.assoc)
  moreover have "a * 2 \<le> a * 2 * 2 ^ n"
  proof -
    have "0 < a * 2 ^ Suc n"
      using Suc.prems(1) by (rule less_le_trans [rotated]) simp
    then have "0 < a"
      by (simp add: zero_less_mult_iff)
    then show ?thesis
      by simp
  qed
  ultimately have small: "a < 2 ^ 52"
    by simp
  have "scale_up (a * 2) (e - 1) = (a * 2 * 2 ^ n, e - 1 - int n)"
    using Suc.prems by (intro Suc.IH) (simp_all add: mult.assoc)
  then show ?case
    using small Suc.prems(3) by (simp add: scale_up.simps [of a e] mult.assoc)
qed

lemma pow2_neg: "pow2 (- int n) = 1 / 2 ^ n"
  by (cases "n = 0") (simp_all add: pow2_def)

text \<open>
  A positive number below \<open>2^53\<close> whose significand, scaled by \<open>2^n\<close> into 53 bits, is
  within half a unit of the integer \<open>k\<close> rounds to \<open>k / 2^n\<close>.
\<close>

lemma round_to_double_near:
  assumes "2 ^ 52 \<le> x * 2 ^ n" and "x * 2 ^ n < 2 ^ 53" and "n \<le> 1074"
    and "of_int k - 1 / 2 < x * 2 ^ n" and "x * 2 ^ n < of_int k + 1 / 2"
  shows "round_to_double x = Num (of_int k / 2 ^ n)"
proof -
  have "0 < x * 2 ^ n"
    using assms(1) by (rule less_le_trans [rotated]) simp
  then have pos: "0 < x"
    by (simp add: zero_less_mult_iff)
  have "x * 1 \<le> x * 2 ^ n"
    using pos by (intro mult_left_mono) simp_all
  then have "x < 2 ^ 53"
    using assms(2) by simp
  then have d: "scale_down x 0 = (x, 0)"
    by (simp add: scale_down.simps [of x 0])
  have u: "scale_up x 0 = (x * 2 ^ n, - int n)"
    using scale_up_by [of x n 0] assms(1-3) by simp
  have r: "round_half_even (x * 2 ^ n) = k"
    using assms(4,5) by (rule round_half_even_near)
  have "(of_int k :: rat) < 2 ^ 53 + 1 / 2"
    using assms(2,4) by simp
  then have "k \<le> 2 ^ 53"
  proof -
    have "(of_int k :: rat) < of_int (2 ^ 53 + 1)"
      using \<open>(of_int k :: rat) < 2 ^ 53 + 1 / 2\<close> by simp
    then have "k < 2 ^ 53 + 1"
      by (simp only: of_int_less_iff)
    then show ?thesis
      by simp
  qed
  then have "(of_int k :: rat) \<le> of_int (2 ^ 53)"
    by (simp only: of_int_le_iff)
  then have kb: "(of_int k :: rat) \<le> 2 ^ 53"
    by simp
  note kb
  also have "(2 :: rat) ^ 53 = 2 ^ 53 * 1"
    by simp
  also have "\<dots> \<le> 2 ^ 53 * 2 ^ n"
    by (intro mult_left_mono) simp_all
  finally have "of_int k \<le> (2 :: rat) ^ 53 * 2 ^ n" .
  then have "(of_int k :: rat) / 2 ^ n \<le> 2 ^ 53"
    by (simp add: pos_divide_le_eq)
  also have "(2 :: rat) ^ 53 < 2 ^ 1024"
    by simp
  finally have lt: "\<not> 2 ^ 1024 \<le> (of_int k :: rat) / 2 ^ n"
    by simp
  have nz: "x \<noteq> 0"
    using pos by simp
  show ?thesis
    using pos lt by (simp add: round_to_double_def d u r pow2_neg nz)
qed

text \<open>A number with a significand of at most 53 bits is a double, and rounds to itself.\<close>

lemma round_to_double_exact:
  assumes "x * 2 ^ n = of_int k" and "2 ^ 52 \<le> x * 2 ^ n" and "x * 2 ^ n < 2 ^ 53"
    and "n \<le> 1074"
  shows "round_to_double x = Num x"
proof -
  have "round_to_double x = Num (of_int k / 2 ^ n)"
    using assms by (intro round_to_double_near) simp_all
  also have "of_int k / 2 ^ n = x"
    using assms(1) [symmetric] by simp
  finally show ?thesis .
qed

text \<open>
  A number of \<open>2^53\<close> or more: its significand, scaled down by \<open>2^n\<close> into 53 bits, is
  rounded to the integer \<open>k\<close>.
\<close>

lemma round_to_double_large:
  assumes "2 ^ 52 \<le> x / 2 ^ n" and "x / 2 ^ n < 2 ^ 53"
    and "round_half_even (x / 2 ^ n) = k" and "of_int k * 2 ^ n < (2 :: rat) ^ 1024"
  shows "round_to_double x = Num (of_int k * 2 ^ n)"
proof -
  have "0 < x / 2 ^ n"
    using assms(1) by (rule less_le_trans [rotated]) simp
  then have pos: "0 < x"
    by (simp add: zero_less_divide_iff)
  have d: "scale_down x 0 = (x / 2 ^ n, int n)"
    using scale_down_by [of x n 0] assms(1,2) by simp
  have u: "scale_up (x / 2 ^ n) (int n) = (x / 2 ^ n, int n)"
    using assms(1) by (simp add: scale_up.simps [of "x / 2 ^ n" "int n"])
  have nz: "x \<noteq> 0"
    using pos by simp
  have lt: "\<not> 2 ^ 1024 \<le> (of_int k :: rat) * 2 ^ n"
    using assms(4) by simp
  show ?thesis
    using pos lt by (simp add: round_to_double_def d u assms(3) pow2_def nz)
qed

text \<open>
  Double arithmetic at work: 29 of 200 is 14.499999999999998 percent, which rounds to 14
  where the exact 14.5 would round to 15, and adding 1 to \<open>2^53\<close> changes nothing.
\<close>

lemma small_integers_are_doubles:
  "round_to_double 5 = Num 5" "round_to_double 8 = Num 8"
  using round_to_double_exact [of 5 50 "5 * 2 ^ 50"] round_to_double_exact [of 8 49 "2 ^ 52"]
  by simp_all

lemma percentage_29_of_200:
  "js_times (js_div (Num 29) (Num 200)) (Num 100) = Num (8162774324609023 / 562949953421312)"
  "Math_min 100 (Math_round (js_times (js_div (Num 29) (Num 200)) (Num 100))) = Num 14"
proof -
  have a: "round_to_double (29 / 200) = Num (5224175567749775 / 2 ^ 55)"
    using round_to_double_near [of "29 / 200" 55 5224175567749775] by simp
  have b: "round_to_double (5224175567749775 / 2 ^ 55 * 100) = Num (8162774324609023 / 2 ^ 49)"
    using round_to_double_near [of "5224175567749775 / 2 ^ 55 * 100" 49 8162774324609023]
    by simp
  show c: "js_times (js_div (Num 29) (Num 200)) (Num 100)
             = Num (8162774324609023 / 562949953421312)"
    using a b by simp
  have "\<lfloor>8162774324609023 / 562949953421312 + 1 / 2 :: rat\<rfloor> = 14"
    by (simp add: floor_eq_iff)
  then show "Math_min 100 (Math_round (js_times (js_div (Num 29) (Num 200)) (Num 100))) = Num 14"
    unfolding c by simp
qed

lemma percentage_8_of_100:
  "Math_min 100 (Math_round (js_times (js_div (Num 8) (Num 100)) (Num 100))) = Num 8"
proof -
  have a: "round_to_double (8 / 100) = Num (5764607523034235 / 2 ^ 56)"
    using round_to_double_near [of "8 / 100" 56 5764607523034235] by simp
  have b: "round_to_double (5764607523034235 / 2 ^ 56 * 100) = Num (4503599627370496 / 2 ^ 49)"
    using round_to_double_near [of "5764607523034235 / 2 ^ 56 * 100" 49 4503599627370496]
    by simp
  have c: "js_times (js_div (Num 8) (Num 100)) (Num 100) = Num 8"
    using a b by simp
  have "\<lfloor>8 + 1 / 2 :: rat\<rfloor> = 8"
    by (simp add: floor_eq_iff)
  then show ?thesis
    unfolding c by simp
qed

lemma percentage_50_of_10000:
  "Math_min 100 (Math_round (js_times (js_div (Num 50) (Num 10000)) (Num 100))) = Num 1"
proof -
  have a: "round_to_double (50 / 10000) = Num (5764607523034235 / 2 ^ 60)"
    using round_to_double_near [of "50 / 10000" 60 5764607523034235] by simp
  have b: "round_to_double (5764607523034235 / 2 ^ 60 * 100) = Num (4503599627370496 / 2 ^ 53)"
    using round_to_double_near [of "5764607523034235 / 2 ^ 60 * 100" 53 4503599627370496]
    by simp
  have c: "js_times (js_div (Num 50) (Num 10000)) (Num 100) = Num (1 / 2)"
    using a b by simp
  show ?thesis
    unfolding c by simp
qed

lemma percentage_50_of_1000:
  "Math_min 100 (Math_round (js_times (js_div (Num 50) (Num 1000)) (Num 100))) = Num 5"
proof -
  have a: "round_to_double (50 / 1000) = Num (7205759403792794 / 2 ^ 57)"
    using round_to_double_near [of "50 / 1000" 57 7205759403792794] by simp
  have b: "round_to_double (7205759403792794 / 2 ^ 57 * 100) = Num (5629499534213120 / 2 ^ 50)"
    using round_to_double_near [of "7205759403792794 / 2 ^ 57 * 100" 50 5629499534213120]
    by simp
  have c: "js_times (js_div (Num 50) (Num 1000)) (Num 100) = Num 5"
    using a b by simp
  have "\<lfloor>5 + 1 / 2 :: rat\<rfloor> = 5"
    by (simp add: floor_eq_iff)
  then show ?thesis
    unfolding c by simp
qed

lemma adding_one_to_2_53:
  "js_plus (Num (2 ^ 53)) (Num 1) = Num (2 ^ 53)"
proof -
  have "round_half_even ((2 ^ 53 + 1) / 2 ^ 1) = 2 ^ 52"
    using round_half_even_tie [of "(2 ^ 53 + 1) / 2 ^ 1" "2 ^ 52"] by simp
  then have "round_to_double (2 ^ 53 + 1) = Num (of_int (2 ^ 52) * 2 ^ 1)"
    by (intro round_to_double_large) simp_all
  then show ?thesis
    by simp
qed

lemma double_arithmetic_examples:
  "js_plus (Num 0) (Num 5) = Num 5"
  "js_plus (Num 5) (Num 3) = Num 8"
  by (simp_all add: small_integers_are_doubles)

section \<open>Properties of the usage ledger\<close>

subsection \<open>The store and the service operations\<close>

lemma as_usage_simps [simp]:
  "as_usage None = None" "as_usage (Some (VUsage r)) = Some r"
  by (simp_all add: as_usage_def)

lemma kv_get_simps [simp]:
  "kv (snd (kv_get k w)) = kv w"
  "fst (kv_get k w) = map_of (kv w) k"
  "calls (snd (kv_get k w)) = calls w @ [KvGet k]"
  by (simp_all add: kv_get_def)

lemma kv_set_calls [simp]: "calls (kv_set k v w) = calls w @ [KvSet k]"
  by (simp add: kv_set_def)

lemma kv_set_lookup:
  "map_of (kv (kv_set k v w)) k' = (if k' = k then Some v else map_of (kv w) k')"
  by (simp add: kv_set_def update_conv')

lemma UsageService_get_eq:
  "UsageService_get now t m p w =
     (as_usage (map_of (kv w)
        (''usage:'' @ t @ '':'' @ m @ '':'' @ js_or_str p (getCurrentPeriod now))),
      w\<lparr>calls := calls w @
        [KvGet (''usage:'' @ t @ '':'' @ m @ '':'' @ js_or_str p (getCurrentPeriod now))]\<rparr>)"
  by (simp add: UsageService_get_def kv_get_def Let_def)

lemma record_stored:
  "as_usage (map_of (kv (snd (UsageService_record now t m v l p w)))
      (''usage:'' @ t @ '':'' @ m @ '':'' @ js_or_str p (getCurrentPeriod now)))
   = Some (fst (UsageService_record now t m v l p w))"
  by (simp add: UsageService_record_def kv_get_def kv_set_def Let_def update_conv')

lemma record_fields:
  "u_current (fst (UsageService_record now t m v l p w)) = v"
  "u_limit (fst (UsageService_record now t m v l p w)) = l"
  "u_percentage (fst (UsageService_record now t m v l p w)) =
     Some (Math_min 100 (Math_round (js_times (js_div v (Num l)) (Num 100))))"
  by (simp_all add: UsageService_record_def kv_get_def kv_set_def Let_def)

lemma record_daily:
  "u_daily (fst (UsageService_record now t m v l p w)) =
     Some (AList.update (split_T_0 (toISOString now)) v
       (case as_usage (map_of (kv w)
               (''usage:'' @ t @ '':'' @ m @ '':'' @ js_or_str p (getCurrentPeriod now))) of
          None \<Rightarrow> []
        | Some e \<Rightarrow> (case u_daily e of None \<Rightarrow> [] | Some d \<Rightarrow> d)))"
  by (simp add: UsageService_record_def kv_get_def kv_set_def Let_def)

lemma record_calls:
  "calls (snd (UsageService_record now t m v l p w)) =
     calls w @ [KvGet (''usage:'' @ t @ '':'' @ m @ '':'' @ js_or_str p (getCurrentPeriod now)),
                KvSet (''usage:'' @ t @ '':'' @ m @ '':'' @ js_or_str p (getCurrentPeriod now))]"
  by (simp add: UsageService_record_def kv_get_def kv_set_def Let_def)

lemma increment_eq:
  "UsageService_increment now t m amt l p w =
     UsageService_record now t m
       (js_plus
          (case fst (UsageService_get now t m p w) of
             None \<Rightarrow> Num 0
           | Some e \<Rightarrow> js_or_jsnum (Some (u_current e)) (Num 0))
          (Num (case amt of None \<Rightarrow> 1 | Some a \<Rightarrow> a))) l p
       (snd (UsageService_get now t m p w))"
  by (simp add: UsageService_increment_def Let_def case_prod_beta)

lemma increment_stored:
  "as_usage (map_of (kv (snd (UsageService_increment now t m amt l p w)))
      (''usage:'' @ t @ '':'' @ m @ '':'' @ js_or_str p (getCurrentPeriod now)))
   = Some (fst (UsageService_increment now t m amt l p w))"
  unfolding increment_eq by (rule record_stored)

lemma increment_fields:
  "u_limit (fst (UsageService_increment now t m amt l p w)) = l"
  "u_percentage (fst (UsageService_increment now t m amt l p w)) =
     Some (Math_min 100 (Math_round (js_times
        (js_div (u_current (fst (UsageService_increment now t m amt l p w))) (Num l)) (Num 100))))"
  by (simp_all add: increment_eq record_fields)

lemma Math_min_capped: "Math_min a y = Num x \<Longrightarrow> x \<le> a"
  by (cases y) auto

subsection \<open>The route-level tracker\<close>

lemma trackUsage_existing:
  assumes "as_usage (map_of (kv w) (''usage:'' @ t @ '':'' @ getCurrentPeriod now @ '':'' @ m))
             = Some e"
  shows "trackUsage now t m amt w =
     kv_set (''usage:'' @ t @ '':'' @ getCurrentPeriod now @ '':'' @ m)
       (VUsage (e\<lparr> u_current :=
                     js_plus (js_or_jsnum (Some (u_current e)) (Num 0))
                       (Num (case amt of None \<Rightarrow> 1 | Some a \<Rightarrow> a)),
                   u_updated_at := Some (toISOString now) \<rparr>))
       (snd (kv_get (''usage:'' @ t @ '':'' @ getCurrentPeriod now @ '':'' @ m) w))"
  using assms
  by (simp add: trackUsage_def getCurrentPeriod_def kv_get_def Let_def)

lemma trackUsage_fresh:
  assumes "as_usage (map_of (kv w) (''usage:'' @ t @ '':'' @ getCurrentPeriod now @ '':'' @ m))
             = None"
  shows "\<exists>l. as_usage (map_of (kv (trackUsage now t m amt w))
               (''usage:'' @ t @ '':'' @ getCurrentPeriod now @ '':'' @ m)) =
     Some \<lparr> u_id = None, u_tenantId = None, u_metric = m, u_period = getCurrentPeriod now,
            u_current = Num (case amt of None \<Rightarrow> 1 | Some a \<Rightarrow> a), u_limit = l,
            u_percentage = None, u_daily = None, u_updatedAt = None,
            u_updated_at = Some (toISOString now) \<rparr>"
  using assms
  by (simp add: trackUsage_def getCurrentPeriod_def Let_def case_prod_beta kv_set_lookup)

lemma trackUsage_calls:
  "calls (trackUsage now t m amt w) =
     calls w @ [KvGet (''usage:'' @ t @ '':'' @ getCurrentPeriod now @ '':'' @ m)] @
       (case as_usage (map_of (kv w) (''usage:'' @ t @ '':'' @ getCurrentPeriod now @ '':'' @ m)) of
          Some e \<Rightarrow> []
        | None \<Rightarrow>
           KvGet (''tenant:'' @ t) #
           (case as_tenant (map_of (kv w) (''tenant:'' @ t)) of
              None \<Rightarrow> []
            | Some tn \<Rightarrow> [KvGet (''plan:plan_'' @ toLowerCase (t_plan tn))])) @
       [KvSet (''usage:'' @ t @ '':'' @ getCurrentPeriod now @ '':'' @ m)]"
  by (simp add: trackUsage_def getCurrentPeriod_def Let_def case_prod_beta
      split: option.splits)

subsection \<open>The reconciliation loop\<close>




subsection \<open>Over-limit queries\<close>

text \<open>
  C8. When a usage record exists for the tenant, metric and period, \<open>isOverLimit\<close> returns
  true exactly when the record's current value is greater than or equal to its limit; at
  the boundary where the two are equal it returns true. A current value that is not
  finite compares as JavaScript's \<open>>=\<close> does.
\<close>

theorem isOverLimit_iff_current_ge_limit:
  assumes "fst (UsageService_get now tenantId metric period w) = Some u"
  shows "fst (UsageService_isOverLimit now tenantId metric period w) =
           js_ge (u_current u) (u_limit u) \<and>
         (u_current u = Num c \<longrightarrow>
            fst (UsageService_isOverLimit now tenantId metric period w) = (c \<ge> u_limit u)) \<and>
         (u_current u = Num (u_limit u) \<longrightarrow>
            fst (UsageService_isOverLimit now tenantId metric period w))"
  using assms by (auto simp add: UsageService_isOverLimit_def Let_def case_prod_beta)

theorem isOverLimit_iff_current_ge_limit_witness:
  "fst (UsageService_get ex_now ''T-1'' ''api_calls'' None ex_metered) = Some ex_usage \<and>
   u_current ex_usage = Num (u_limit ex_usage) \<and>
   fst (UsageService_isOverLimit ex_now ''T-1'' ''api_calls'' None ex_metered) = True"
proof -
  have h: "fst (UsageService_get ex_now ''T-1'' ''api_calls'' None ex_metered) = Some ex_usage"
    by code_simp
  have e: "u_current ex_usage = Num (u_limit ex_usage)"
    by (simp add: ex_usage_def)
  from isOverLimit_iff_current_ge_limit [OF h] e h show ?thesis by simp
qed

text \<open>
  C10. When no usage record exists for the tenant, metric and period, \<open>isOverLimit\<close>
  returns false and writes nothing: the store and the tenants table are as before, and
  the only backend call is the one read of the record's key.
\<close>

theorem isOverLimit_without_record:
  assumes "fst (UsageService_get now tenantId metric period w) = None"
  shows "fst (UsageService_isOverLimit now tenantId metric period w) = False \<and>
         kv (snd (UsageService_isOverLimit now tenantId metric period w)) = kv w \<and>
         pg_tenants (snd (UsageService_isOverLimit now tenantId metric period w)) = pg_tenants w \<and>
         calls (snd (UsageService_isOverLimit now tenantId metric period w)) =
           calls w @ [KvGet (''usage:'' @ tenantId @ '':'' @ metric @ '':'' @
                               js_or_str period (getCurrentPeriod now))]"
  using assms by (simp add: UsageService_isOverLimit_def UsageService_get_eq Let_def)

theorem isOverLimit_without_record_witness:
  "fst (UsageService_get ex_now ''T-2'' ''api_calls'' None ex_metered) = None \<and>
   fst (UsageService_isOverLimit ex_now ''T-2'' ''api_calls'' None ex_metered) = False \<and>
   kv (snd (UsageService_isOverLimit ex_now ''T-2'' ''api_calls'' None ex_metered)) = kv ex_metered \<and>
   calls (snd (UsageService_isOverLimit ex_now ''T-2'' ''api_calls'' None ex_metered)) =
     [KvGet ''usage:T-2:api_calls:2025-10'']"
proof -
  have h: "fst (UsageService_get ex_now ''T-2'' ''api_calls'' None ex_metered) = None"
    by code_simp
  have p: "js_or_str None (getCurrentPeriod ex_now) = ''2025-10''"
    by code_simp
  have c: "calls ex_metered = []"
    by (simp add: ex_metered_def)
  from isOverLimit_without_record [OF h] h p c show ?thesis by simp
qed

subsection \<open>Increments\<close>

text \<open>
  C9. For a tenant and metric with no usage record in the period, \<open>increment\<close> by 5 and
  then by 3, both with limit 100 and in the same period, leave a stored record with
  current 8 and percentage 8. An increment reads the existing current value (0 when
  there is no record, or when the value is 0 or NaN), adds the amount as JavaScript adds
  two numbers, and records the sum.
\<close>

theorem increment_5_then_3:
  assumes "fst (UsageService_get now1 t m period w) = None"
    and "js_or_str period (getCurrentPeriod now2) = js_or_str period (getCurrentPeriod now1)"
  shows "(let (r1, w1) = UsageService_increment now1 t m (Some 5) 100 period w;
              (r2, w2) = UsageService_increment now2 t m (Some 3) 100 period w1
          in u_current r2 = Num 8 \<and> u_percentage r2 = Some (Num 8) \<and>
             fst (UsageService_get now2 t m period w2) = Some r2) \<and>
         u_current (fst (UsageService_increment now t' m' (Some a) l p' w')) =
           js_plus
             (case fst (UsageService_get now t' m' p' w') of
                None \<Rightarrow> Num 0
              | Some e \<Rightarrow> if u_current e = NaN then Num 0 else u_current e)
             (Num a) \<and>
         fst (UsageService_get now t' m' p' (snd (UsageService_increment now t' m' (Some a) l p' w')))
           = Some (fst (UsageService_increment now t' m' (Some a) l p' w'))"
proof -
  let ?i1 = "UsageService_increment now1 t m (Some 5) 100 period w"
  let ?i2 = "UsageService_increment now2 t m (Some 3) 100 period (snd ?i1)"
  have c1: "u_current (fst ?i1) = Num 5"
    using assms(1) double_arithmetic_examples(1) by (simp add: increment_eq record_fields)
  have g: "fst (UsageService_get now2 t m period (snd ?i1)) = Some (fst ?i1)"
    using increment_stored [of now1 t m "Some 5" 100 period w] assms(2)
    by (simp add: UsageService_get_eq)
  have c2: "u_current (fst ?i2) = Num 8"
    using g c1 double_arithmetic_examples(2)
    by (simp add: increment_eq [of now2] record_fields js_or_jsnum_def)
  have p2: "u_percentage (fst ?i2) = Some (Num 8)"
    using c2 percentage_8_of_100 by (simp add: increment_fields)
  have s2: "fst (UsageService_get now2 t m period (snd ?i2)) = Some (fst ?i2)"
    using increment_stored [of now2 t m "Some 3" 100 period "snd ?i1"]
    by (simp add: UsageService_get_eq)
  have gen: "u_current (fst (UsageService_increment now t' m' (Some a) l p' w')) =
           js_plus
             (case fst (UsageService_get now t' m' p' w') of
                None \<Rightarrow> Num 0
              | Some e \<Rightarrow> if u_current e = NaN then Num 0 else u_current e)
             (Num a)"
    by (auto simp add: increment_eq record_fields js_or_jsnum_def split: option.splits)
  have rb: "fst (UsageService_get now t' m' p'
                (snd (UsageService_increment now t' m' (Some a) l p' w')))
           = Some (fst (UsageService_increment now t' m' (Some a) l p' w'))"
    using increment_stored [of now t' m' "Some a" l p' w'] by (simp add: UsageService_get_eq)
  show ?thesis using c2 p2 s2 gen rb by (simp add: case_prod_beta)
qed

theorem increment_5_then_3_witness:
  "fst (UsageService_get ex_now ''T-2'' ''api_calls'' None ex_empty) = None \<and>
   js_or_str None (getCurrentPeriod ex_later) = js_or_str None (getCurrentPeriod ex_now) \<and>
   u_current (fst (UsageService_increment ex_later ''T-2'' ''api_calls'' (Some 3) 100 None
      (snd (UsageService_increment ex_now ''T-2'' ''api_calls'' (Some 5) 100 None ex_empty))))
     = Num 8 \<and>
   u_percentage (fst (UsageService_increment ex_later ''T-2'' ''api_calls'' (Some 3) 100 None
      (snd (UsageService_increment ex_now ''T-2'' ''api_calls'' (Some 5) 100 None ex_empty))))
     = Some (Num 8)"
proof -
  have h: "fst (UsageService_get ex_now ''T-2'' ''api_calls'' None ex_empty) = None"
    by code_simp
  have p: "js_or_str None (getCurrentPeriod ex_later) = js_or_str None (getCurrentPeriod ex_now)"
    by code_simp
  from increment_5_then_3 [OF h p, THEN conjunct1] h p show ?thesis
    by (simp add: case_prod_beta)
qed

subsection \<open>The percentage field\<close>

text \<open>
  C6 as stated fails on the route-level tracker: the record it creates carries no
  percentage at all. Tracking 50 calls for a tenant with no record stores current 50 and
  limit 1000, for which the formula gives 5, and no percentage field.
\<close>

theorem trackUsage_no_percentage_counterexample:
  "map_option u_percentage
     (as_usage (map_of (kv (trackUsage ex_now ''T-1'' ''api_calls'' (Some 50) ex_empty))
        ''usage:T-1:2025-10:api_calls'')) = Some None \<and>
   map_option u_current
     (as_usage (map_of (kv (trackUsage ex_now ''T-1'' ''api_calls'' (Some 50) ex_empty))
        ''usage:T-1:2025-10:api_calls'')) = Some (Num 50) \<and>
   map_option u_limit
     (as_usage (map_of (kv (trackUsage ex_now ''T-1'' ''api_calls'' (Some 50) ex_empty))
        ''usage:T-1:2025-10:api_calls'')) = Some 1000 \<and>
   Math_min 100 (Math_round (js_times (js_div (Num 50) (Num 1000)) (Num 100))) = Num 5"
proof -
  let ?r = "as_usage (map_of (kv (trackUsage ex_now ''T-1'' ''api_calls'' (Some 50) ex_empty))
              ''usage:T-1:2025-10:api_calls'')"
  have "map_option u_percentage ?r = Some None"
    by code_simp
  moreover have "map_option u_current ?r = Some (Num 50)"
    by code_simp
  moreover have "map_option u_limit ?r = Some 1000"
    by code_simp
  ultimately show ?thesis
    using percentage_50_of_1000 by simp
qed

text \<open>
  C6, amended. Every record stored by \<open>UsageService.record\<close> or
  \<open>UsageService.increment\<close> carries the percentage that
  \<open>Math.min(100, Math.round((current / limit) * 100))\<close> gives for its own current value and
  limit in double arithmetic, which is never above 100. The route-level tracker stores no
  percentage when it creates a record, and leaves the percentage field as it was when it
  updates one.
\<close>

theorem service_writes_store_percentage:
  fixes r i :: usage_record
  assumes "r = fst (UsageService_record now t m v l p w)"
    and "i = fst (UsageService_increment now t m a l p w)"
  shows "as_usage (map_of (kv (snd (UsageService_record now t m v l p w)))
           (''usage:'' @ t @ '':'' @ m @ '':'' @ js_or_str p (getCurrentPeriod now))) = Some r \<and>
         u_current r = v \<and> u_limit r = l \<and>
         u_percentage r =
           Some (Math_min 100
             (Math_round (js_times (js_div (u_current r) (Num (u_limit r))) (Num 100)))) \<and>
         (u_percentage r = Some (Num x) \<longrightarrow> x \<le> 100) \<and>
         as_usage (map_of (kv (snd (UsageService_increment now t m a l p w)))
           (''usage:'' @ t @ '':'' @ m @ '':'' @ js_or_str p (getCurrentPeriod now))) = Some i \<and>
         u_limit i = l \<and>
         u_percentage i =
           Some (Math_min 100
             (Math_round (js_times (js_div (u_current i) (Num (u_limit i))) (Num 100)))) \<and>
         (u_percentage i = Some (Num x) \<longrightarrow> x \<le> 100) \<and>
         (as_usage (map_of (kv w') (''usage:'' @ t @ '':'' @ getCurrentPeriod now @ '':'' @ m)) = None \<longrightarrow>
            map_option u_percentage (as_usage (map_of (kv (trackUsage now t m a w'))
              (''usage:'' @ t @ '':'' @ getCurrentPeriod now @ '':'' @ m))) = Some None) \<and>
         (as_usage (map_of (kv w') (''usage:'' @ t @ '':'' @ getCurrentPeriod now @ '':'' @ m)) = Some e \<longrightarrow>
            map_option u_percentage (as_usage (map_of (kv (trackUsage now t m a w'))
              (''usage:'' @ t @ '':'' @ getCurrentPeriod now @ '':'' @ m))) = Some (u_percentage e))"
proof -
  have r1: "as_usage (map_of (kv (snd (UsageService_record now t m v l p w)))
           (''usage:'' @ t @ '':'' @ m @ '':'' @ js_or_str p (getCurrentPeriod now))) = Some r"
    unfolding assms(1) by (rule record_stored)
  have r2: "u_current r = v" "u_limit r = l"
    unfolding assms(1) by (simp_all add: record_fields)
  have r3: "u_percentage r =
           Some (Math_min 100
             (Math_round (js_times (js_div (u_current r) (Num (u_limit r))) (Num 100))))"
    unfolding assms(1) by (simp add: record_fields)
  have i1: "as_usage (map_of (kv (snd (UsageService_increment now t m a l p w)))
           (''usage:'' @ t @ '':'' @ m @ '':'' @ js_or_str p (getCurrentPeriod now))) = Some i"
    unfolding assms(2) by (rule increment_stored)
  have i2: "u_limit i = l"
    unfolding assms(2) by (simp add: increment_fields)
  have i3: "u_percentage i =
           Some (Math_min 100
             (Math_round (js_times (js_div (u_current i) (Num (u_limit i))) (Num 100))))"
    unfolding assms(2) by (simp add: increment_fields)
  have r4: "x \<le> 100" if "u_percentage r = Some (Num x)"
    using that r3 Math_min_capped [of 100 _ x] by simp
  have i4: "x \<le> 100" if "u_percentage i = Some (Num x)"
    using that i3 Math_min_capped [of 100 _ x] by simp
  have t1: "map_option u_percentage (as_usage (map_of (kv (trackUsage now t m a w'))
              (''usage:'' @ t @ '':'' @ getCurrentPeriod now @ '':'' @ m))) = Some None"
    if "as_usage (map_of (kv w') (''usage:'' @ t @ '':'' @ getCurrentPeriod now @ '':'' @ m)) = None"
    using trackUsage_fresh [OF that, of a] by auto
  have t2: "map_option u_percentage (as_usage (map_of (kv (trackUsage now t m a w'))
              (''usage:'' @ t @ '':'' @ getCurrentPeriod now @ '':'' @ m))) = Some (u_percentage e)"
    if "as_usage (map_of (kv w') (''usage:'' @ t @ '':'' @ getCurrentPeriod now @ '':'' @ m)) = Some e"
    unfolding trackUsage_existing [OF that] by (simp add: kv_set_lookup)
  show ?thesis
    using r1 r2 r3 r4 i1 i2 i3 i4 t1 t2 by blast
qed

theorem service_writes_store_percentage_witness:
  "u_percentage (fst (UsageService_record ex_now ''T-1'' ''api_calls'' (Num 50) 10000 None ex_empty))
     = Some (Num 1) \<and>
   u_daily (fst (UsageService_record ex_now ''T-1'' ''api_calls'' (Num 50) 10000 None ex_empty))
     = Some [(''2025-10-03'', Num 50)] \<and>
   u_percentage (fst (UsageService_record ex_now ''T-1'' ''api_calls'' (Num 29) 200 None ex_empty))
     = Some (Num 14) \<and>
   (14 :: rat) \<le> 100 \<and>
   as_usage (map_of (kv ex_empty)
     (''usage:'' @ ''T-1'' @ '':'' @ getCurrentPeriod ex_now @ '':'' @ ''api_calls'')) = None \<and>
   map_option u_percentage (as_usage (map_of (kv (trackUsage ex_now ''T-1'' ''api_calls'' None ex_empty))
     (''usage:'' @ ''T-1'' @ '':'' @ getCurrentPeriod ex_now @ '':'' @ ''api_calls''))) = Some None"
proof -
  let ?r = "fst (UsageService_record ex_now ''T-1'' ''api_calls'' (Num 50) 10000 None ex_empty)"
  let ?s = "fst (UsageService_record ex_now ''T-1'' ''api_calls'' (Num 29) 200 None ex_empty)"
  have today: "split_T_0 (toISOString ex_now) = ''2025-10-03''"
    by code_simp
  have d: "u_daily ?r = Some [(''2025-10-03'', Num 50)]"
    by (simp add: record_daily today ex_empty_def)
  have m: "as_usage (map_of (kv ex_empty)
     (''usage:'' @ ''T-1'' @ '':'' @ getCurrentPeriod ex_now @ '':'' @ ''api_calls'')) = None"
    by (simp add: ex_empty_def)
  note inst = service_writes_store_percentage
         [OF refl refl, of ex_now "''T-1''" "''api_calls''" "Num 50" 10000 None ex_empty 1 None
            ex_empty]
  note inst' = service_writes_store_percentage
         [OF refl refl, of ex_now "''T-1''" "''api_calls''" "Num 29" 200 None ex_empty 14 None
            ex_empty]
  from inst have "u_current ?r = Num 50" and "u_limit ?r = 10000"
    and "u_percentage ?r =
           Some (Math_min 100
             (Math_round (js_times (js_div (u_current ?r) (Num (u_limit ?r))) (Num 100))))"
    by blast+
  then have p: "u_percentage ?r = Some (Num 1)"
    using percentage_50_of_10000 by simp
  from inst' have "u_current ?s = Num 29" and "u_limit ?s = 200"
    and "u_percentage ?s =
           Some (Math_min 100
             (Math_round (js_times (js_div (u_current ?s) (Num (u_limit ?s))) (Num 100))))"
    by blast+
  then have q: "u_percentage ?s = Some (Num 14)"
    using percentage_29_of_200(2) by simp
  from inst' q have c: "(14 :: rat) \<le> 100"
    by blast
  from inst m have t: "map_option u_percentage (as_usage (map_of
      (kv (trackUsage ex_now ''T-1'' ''api_calls'' None ex_empty))
      (''usage:'' @ ''T-1'' @ '':'' @ getCurrentPeriod ex_now @ '':'' @ ''api_calls''))) = Some None"
    by blast
  from p d q c m t show ?thesis by blast
qed

subsection \<open>The stored limit\<close>




subsection \<open>The keys addressed\<close>

text \<open>
  C5 as stated fails on the service: for tenant \<open>T-1\<close>, metric \<open>api_calls\<close> and period
  \<open>2025-10\<close> it reads \<open>usage:T-1:api_calls:2025-10\<close>, the metric before the period, and so
  does not find the record the route-level tracker has just stored for the same tuple.
\<close>

theorem usage_keys_differ_counterexample:
  "calls (snd (UsageService_get ex_now ''T-1'' ''api_calls'' None ex_empty)) =
     [KvGet ''usage:T-1:api_calls:2025-10''] \<and>
   map_of (kv (trackUsage ex_now ''T-1'' ''api_calls'' (Some 5) ex_empty))
     ''usage:T-1:2025-10:api_calls'' \<noteq> None \<and>
   fst (UsageService_get ex_now ''T-1'' ''api_calls'' None
          (trackUsage ex_now ''T-1'' ''api_calls'' (Some 5) ex_empty)) = None"
  by code_simp

text \<open>
  C5, amended. The service-level ledger operations (get, isOverLimit, record, increment)
  address the key \<open>usage:<tenantId>:<metric>:<period>\<close> and no other, and a record written
  by the service is stored under it. The route-level tracker addresses
  \<open>usage:<tenantId>:<period>:<metric>\<close> for the usage record, which it reads first and
  writes last, and a record is stored under that key when it returns.
\<close>

theorem usage_keys_by_layer:
  "calls (snd (UsageService_get now t m p w)) =
     calls w @ [KvGet (''usage:'' @ t @ '':'' @ m @ '':'' @ js_or_str p (getCurrentPeriod now))] \<and>
   calls (snd (UsageService_isOverLimit now t m p w)) =
     calls w @ [KvGet (''usage:'' @ t @ '':'' @ m @ '':'' @ js_or_str p (getCurrentPeriod now))] \<and>
   calls (snd (UsageService_record now t m v l p w)) =
     calls w @ [KvGet (''usage:'' @ t @ '':'' @ m @ '':'' @ js_or_str p (getCurrentPeriod now)),
                KvSet (''usage:'' @ t @ '':'' @ m @ '':'' @ js_or_str p (getCurrentPeriod now))] \<and>
   calls (snd (UsageService_increment now t m a l p w)) =
     calls w @ [KvGet (''usage:'' @ t @ '':'' @ m @ '':'' @ js_or_str p (getCurrentPeriod now)),
                KvGet (''usage:'' @ t @ '':'' @ m @ '':'' @ js_or_str p (getCurrentPeriod now)),
                KvSet (''usage:'' @ t @ '':'' @ m @ '':'' @ js_or_str p (getCurrentPeriod now))] \<and>
   calls (trackUsage now t m a w) =
     calls w @ [KvGet (''usage:'' @ t @ '':'' @ getCurrentPeriod now @ '':'' @ m)] @
       (case as_usage (map_of (kv w) (''usage:'' @ t @ '':'' @ getCurrentPeriod now @ '':'' @ m)) of
          Some e \<Rightarrow> []
        | None \<Rightarrow>
           KvGet (''tenant:'' @ t) #
           (case as_tenant (map_of (kv w) (''tenant:'' @ t)) of
              None \<Rightarrow> []
            | Some tn \<Rightarrow> [KvGet (''plan:plan_'' @ toLowerCase (t_plan tn))])) @
       [KvSet (''usage:'' @ t @ '':'' @ getCurrentPeriod now @ '':'' @ m)] \<and>
   as_usage (map_of (kv (snd (UsageService_record now t m v l p w)))
      (''usage:'' @ t @ '':'' @ m @ '':'' @ js_or_str p (getCurrentPeriod now)))
     = Some (fst (UsageService_record now t m v l p w)) \<and>
   as_usage (map_of (kv (trackUsage now t m a w))
      (''usage:'' @ t @ '':'' @ getCurrentPeriod now @ '':'' @ m)) \<noteq> None"
proof -
  have g: "calls (snd (UsageService_get now t m p w)) =
     calls w @ [KvGet (''usage:'' @ t @ '':'' @ m @ '':'' @ js_or_str p (getCurrentPeriod now))]"
    by (simp add: UsageService_get_eq)
  have o: "calls (snd (UsageService_isOverLimit now t m p w)) =
     calls w @ [KvGet (''usage:'' @ t @ '':'' @ m @ '':'' @ js_or_str p (getCurrentPeriod now))]"
    by (simp add: UsageService_isOverLimit_def UsageService_get_eq Let_def)
  have i: "calls (snd (UsageService_increment now t m a l p w)) =
     calls w @ [KvGet (''usage:'' @ t @ '':'' @ m @ '':'' @ js_or_str p (getCurrentPeriod now)),
                KvGet (''usage:'' @ t @ '':'' @ m @ '':'' @ js_or_str p (getCurrentPeriod now)),
                KvSet (''usage:'' @ t @ '':'' @ m @ '':'' @ js_or_str p (getCurrentPeriod now))]"
    unfolding increment_eq record_calls by (simp add: UsageService_get_eq)
  have s: "as_usage (map_of (kv (trackUsage now t m a w))
      (''usage:'' @ t @ '':'' @ getCurrentPeriod now @ '':'' @ m)) \<noteq> None"
  proof (cases "as_usage (map_of (kv w) (''usage:'' @ t @ '':'' @ getCurrentPeriod now @ '':'' @ m))")
    case None
    from trackUsage_fresh [OF None, of a] show ?thesis by auto
  next
    case (Some e)
    show ?thesis
      unfolding trackUsage_existing [OF Some] by (simp add: kv_set_lookup)
  qed
  show ?thesis
    using g o i s record_calls [of now t m v l p w] trackUsage_calls [of now t m a w]
      record_stored [of now t m v l p w]
    by blast
qed

theorem usage_keys_by_layer_witness:
  "calls (snd (UsageService_increment ex_now ''T-1'' ''api_calls'' (Some 1) 100 (Some ''2025-09'')
      ex_metered)) =
     [KvGet ''usage:T-1:api_calls:2025-09'', KvGet ''usage:T-1:api_calls:2025-09'',
      KvSet ''usage:T-1:api_calls:2025-09''] \<and>
   calls (trackUsage ex_now ''T-1'' ''api_calls'' (Some 1) ex_metered) =
     [KvGet ''usage:T-1:2025-10:api_calls'', KvGet ''tenant:T-1'',
      KvSet ''usage:T-1:2025-10:api_calls'']"
proof -
  have p: "getCurrentPeriod ex_now = ''2025-10''"
    by code_simp
  have c: "calls ex_metered = []" "kv ex_metered = [(''usage:T-1:api_calls:2025-10'', VUsage ex_usage)]"
    by (simp_all add: ex_metered_def)
  from usage_keys_by_layer [of ex_now "''T-1''" "''api_calls''" "Some ''2025-09''" ex_metered
      "Num 0" 100 "Some 1"]
  show ?thesis
    by (simp add: p c js_or_str_def as_tenant_def)
qed

section \<open>Properties of the feature-flag evaluator\<close>

lemma list_kv [simp]:
  "kv (snd (FeatureFlagService_list w)) = kv w"
  "pg_tenants (snd (FeatureFlagService_list w)) = pg_tenants w"
  "calls (snd (FeatureFlagService_list w)) = calls w @ [KvGetByPrefix ''flag:'']"
  "fst (FeatureFlagService_list w) =
     as_flags (map snd (filter (\<lambda>e. prefix ''flag:'' (fst e)) (kv w)))"
  by (simp_all add: FeatureFlagService_list_def kv_getByPrefix_def case_prod_beta)

lemma isEnabled_world [simp]:
  "snd (FeatureFlagService_isEnabled k t p w) = snd (FeatureFlagService_list w)"
  by (simp add: FeatureFlagService_isEnabled_def case_prod_beta)

lemma isEnabled_found:
  assumes "find (\<lambda>f. f_key f = k) (fst (FeatureFlagService_list w)) = Some flag"
  shows "fst (FeatureFlagService_isEnabled k t planType w) =
     (if f_status flag = Disabled then False
      else if includes_opt (f_disabledForTenants flag) t then False
      else if includes_opt (f_enabledForTenants flag) t then True
      else if (\<exists>pt ps. planType = Some pt \<and> pt \<noteq> [] \<and>
                 f_enabledForPlans flag = Some ps \<and> pt \<notin> set ps) then False
      else if (\<exists>p. f_rolloutPercentage flag = Some p \<and> p < 100)
           then of_nat (charCodeSum t mod 100) < the (f_rolloutPercentage flag)
      else f_status flag = Enabled)"
  using assms
  by (auto simp add: FeatureFlagService_isEnabled_def case_prod_beta Let_def
      split: option.splits)

lemma isEnabled_missing:
  assumes "find (\<lambda>f. f_key f = k) (fst (FeatureFlagService_list w)) = None"
  shows "fst (FeatureFlagService_isEnabled k t planType w) = False"
  using assms by (simp add: FeatureFlagService_isEnabled_def case_prod_beta)

lemma foldl_charCode: "foldl (\<lambda>acc char. acc + of_char char) a s = a + sum_list (map of_char s)"
  for a :: nat
  by (induction s arbitrary: a) simp_all

lemma charCodeSum_sum_list: "charCodeSum s = sum_list (map of_char s)"
  by (simp add: charCodeSum_def foldl_charCode)

text \<open>
  The service evaluator applies its rules in the order the specification gives: a missing
  flag or status \<open>disabled\<close> yields false; otherwise a tenant identifier on the deny-list
  yields false; otherwise one on the allow-list yields true; otherwise a supplied plan
  name absent from a declared entitled-plan list yields false; otherwise a declared
  rollout percentage below 100 decides by the bucket; otherwise the result is true iff
  the status is \<open>enabled\<close>. In particular a tenant on both lists gets false.
\<close>

lemma isEnabled_precedence:
  fixes flagKey tenantId :: string
  defines "enabled \<equiv> \<lambda>planType w. fst (FeatureFlagService_isEnabled flagKey tenantId planType w)"
  shows
    "(find (\<lambda>f. f_key f = flagKey) (fst (FeatureFlagService_list w)) = None \<longrightarrow>
        \<not> enabled planType w) \<and>
     (find (\<lambda>f. f_key f = flagKey) (fst (FeatureFlagService_list w)) = Some flag \<longrightarrow>
        (f_status flag = Disabled \<longrightarrow> \<not> enabled planType w) \<and>
        (f_status flag \<noteq> Disabled \<longrightarrow>
           (includes_opt (f_disabledForTenants flag) tenantId \<longrightarrow> \<not> enabled planType w) \<and>
           (\<not> includes_opt (f_disabledForTenants flag) tenantId \<longrightarrow>
              (includes_opt (f_enabledForTenants flag) tenantId \<longrightarrow> enabled planType w) \<and>
              (\<not> includes_opt (f_enabledForTenants flag) tenantId \<longrightarrow>
                 ((\<exists>pt ps. planType = Some pt \<and> pt \<noteq> [] \<and>
                      f_enabledForPlans flag = Some ps \<and> pt \<notin> set ps) \<longrightarrow>
                    \<not> enabled planType w) \<and>
                 (\<not> (\<exists>pt ps. planType = Some pt \<and> pt \<noteq> [] \<and>
                      f_enabledForPlans flag = Some ps \<and> pt \<notin> set ps) \<longrightarrow>
                    (\<forall>p. f_rolloutPercentage flag = Some p \<and> p < 100 \<longrightarrow>
                       enabled planType w = (of_nat (charCodeSum tenantId mod 100) < p)) \<and>
                    (\<not> (\<exists>p. f_rolloutPercentage flag = Some p \<and> p < 100) \<longrightarrow>
                       enabled planType w = (f_status flag = Enabled)))))) \<and>
        (includes_opt (f_disabledForTenants flag) tenantId \<and>
         includes_opt (f_enabledForTenants flag) tenantId \<longrightarrow> \<not> enabled planType w))"
proof -
  have missing: "\<not> enabled planType w"
    if "find (\<lambda>f. f_key f = flagKey) (fst (FeatureFlagService_list w)) = None"
    unfolding enabled_def using isEnabled_missing [OF that] by simp
  have found: ?thesis
    if f: "find (\<lambda>f. f_key f = flagKey) (fst (FeatureFlagService_list w)) = Some flag"
    unfolding enabled_def isEnabled_found [OF f] using f
    by auto
  show ?thesis
  proof (cases "find (\<lambda>f. f_key f = flagKey) (fst (FeatureFlagService_list w)) = Some flag")
    case True
    then show ?thesis by (rule found)
  next
    case False
    then show ?thesis using missing by simp
  qed
qed

text \<open>
  The handler of \<open>GET /tenants/:tenantId/features\<close> tests the allow-list first: a feature
  with one of the tenant's identifiers on its allow-list is listed as enabled, whatever
  its deny-list holds.
\<close>

lemma listing_tests_allow_list_first:
  "list_ex (includes_opt (f_enabledForTenants feature)) tenantIdentifiers \<Longrightarrow>
     v_enabled (feature_for_tenant tenantIdentifiers tenant feature)"
  by (simp add: feature_for_tenant_def Let_def)

text \<open>
  C1. The code departs from the claim on the per-tenant listing path. Tenant \<open>T-9\<close> is on
  both the deny-list and the allow-list of the record \<open>x\<close>, which is not disabled.
  \<open>isEnabled\<close> answers false for it, as the claim requires of every evaluation path, and
  \<open>GET /tenants/T-9/features\<close> lists the same record as enabled: there the allow-list
  beats the deny-list.
\<close>

theorem listing_lists_denied_tenant_as_enabled:
  "includes_opt (f_disabledForTenants ex_flag) ''T-9'' \<and>
   includes_opt (f_enabledForTenants ex_flag) ''T-9'' \<and>
   f_status ex_flag = Enabled \<and>
   fst (FeatureFlagService_isEnabled ''x'' ''T-9'' (Some ''Pro'') ex_flagged) = False \<and>
   (case fst (get_tenant_features ex_now ''T-9'' ex_flagged) of
      Json200 features \<Rightarrow> map (\<lambda>v. (v_key v, v_enabled v)) features
    | Json404 msg \<Rightarrow> []) = [(''x'', True)]"
  by code_simp

text \<open>
  C2 as stated fails on a flag with status \<open>disabled\<close>: the flag \<open>y\<close> declares a rollout
  of 50 and has no deny-list, allow-list or plan list, the bucket of \<open>T-12\<close> is 28, and
  \<open>isEnabled\<close> answers false.
\<close>

theorem disabled_flag_rollout_counterexample:
  "find (\<lambda>f. f_key f = ''y'') (fst (FeatureFlagService_list ex_flagged)) = Some ex_dark_flag \<and>
   f_rolloutPercentage ex_dark_flag = Some 50 \<and>
   f_disabledForTenants ex_dark_flag = None \<and>
   f_enabledForTenants ex_dark_flag = None \<and>
   f_enabledForPlans ex_dark_flag = None \<and>
   sum_list (map of_char ''T-12'') mod 100 = (28 :: nat) \<and>
   fst (FeatureFlagService_isEnabled ''y'' ''T-12'' None ex_flagged) = False"
  by code_simp

text \<open>
  C2, amended. For every flag found under the key whose status is not \<open>disabled\<close> and
  that declares a rollout percentage below 100, and every tenant identifier not matched
  by the deny, allow or plan rule, \<open>isEnabled\<close> returns true iff the sum of the character
  codes of the identifier, modulo 100, is below the percentage. The bucket is a function
  of the identifier alone and an evaluation leaves the store as it was, so a second call
  agrees with the first. With percentage 0 no such tenant is enabled; with percentage 100
  the result is the status check.
\<close>

theorem rollout_bucket_rule:
  fixes flagKey tenantId :: string and planType :: "string option"
  defines "enabled \<equiv> \<lambda>w. fst (FeatureFlagService_isEnabled flagKey tenantId planType w)"
  assumes "find (\<lambda>f. f_key f = flagKey) (fst (FeatureFlagService_list w)) = Some flag"
    and "f_status flag \<noteq> Disabled"
    and "\<not> includes_opt (f_disabledForTenants flag) tenantId"
    and "\<not> includes_opt (f_enabledForTenants flag) tenantId"
    and "\<not> (\<exists>pt ps. planType = Some pt \<and> pt \<noteq> [] \<and>
               f_enabledForPlans flag = Some ps \<and> pt \<notin> set ps)"
  shows "(f_rolloutPercentage flag = Some p \<and> p < 100 \<longrightarrow>
            enabled w = (of_nat (sum_list (map of_char tenantId) mod 100) < p)) \<and>
         (f_rolloutPercentage flag = Some 0 \<longrightarrow> \<not> enabled w) \<and>
         (f_rolloutPercentage flag = Some 100 \<longrightarrow> enabled w = (f_status flag = Enabled)) \<and>
         enabled (snd (FeatureFlagService_isEnabled flagKey' tenantId' planType' w)) = enabled w \<and>
         kv (snd (FeatureFlagService_isEnabled flagKey tenantId planType w)) = kv w"
proof -
  have e: "enabled w =
      (if (\<exists>p. f_rolloutPercentage flag = Some p \<and> p < 100)
       then of_nat (sum_list (map of_char tenantId) mod 100) < the (f_rolloutPercentage flag)
       else f_status flag = Enabled)"
    unfolding enabled_def isEnabled_found [OF assms(2)]
    using assms(3-6) by (auto simp add: charCodeSum_sum_list)
  have a: "f_rolloutPercentage flag = Some p \<and> p < 100 \<longrightarrow>
            enabled w = (of_nat (sum_list (map of_char tenantId) mod 100) < p)"
    unfolding e by auto
  have b: "f_rolloutPercentage flag = Some 0 \<longrightarrow> \<not> enabled w"
    unfolding e by auto
  have c: "f_rolloutPercentage flag = Some 100 \<longrightarrow> enabled w = (f_status flag = Enabled)"
    unfolding e by auto
  have d: "enabled (snd (FeatureFlagService_isEnabled flagKey' tenantId' planType' w)) = enabled w"
    unfolding enabled_def
    by (simp add: FeatureFlagService_isEnabled_def FeatureFlagService_list_def
        kv_getByPrefix_def case_prod_beta)
  have k: "kv (snd (FeatureFlagService_isEnabled flagKey tenantId planType w)) = kv w"
    by simp
  show ?thesis using a b c d k by blast
qed

theorem rollout_bucket_rule_witness:
  "find (\<lambda>f. f_key f = ''z'') (fst (FeatureFlagService_list ex_flagged)) = Some ex_rollout_flag \<and>
   f_status ex_rollout_flag \<noteq> Disabled \<and>
   \<not> includes_opt (f_disabledForTenants ex_rollout_flag) ''T-12'' \<and>
   \<not> includes_opt (f_enabledForTenants ex_rollout_flag) ''T-12'' \<and>
   f_rolloutPercentage ex_rollout_flag = Some 50 \<and>
   sum_list (map of_char ''T-12'') mod 100 = (28 :: nat) \<and>
   fst (FeatureFlagService_isEnabled ''z'' ''T-12'' None ex_flagged) = True \<and>
   sum_list (map of_char ''T-1'') mod 100 = (78 :: nat) \<and>
   fst (FeatureFlagService_isEnabled ''z'' ''T-1'' None ex_flagged) = False \<and>
   find (\<lambda>f. f_key f = ''r0'') (fst (FeatureFlagService_list ex_rollouts)) = Some ex_closed_flag \<and>
   f_rolloutPercentage ex_closed_flag = Some 0 \<and>
   fst (FeatureFlagService_isEnabled ''r0'' ''T-12'' None ex_rollouts) = False \<and>
   find (\<lambda>f. f_key f = ''r100'') (fst (FeatureFlagService_list ex_rollouts)) = Some ex_open_flag \<and>
   f_rolloutPercentage ex_open_flag = Some 100 \<and>
   f_status ex_open_flag = Enabled \<and>
   fst (FeatureFlagService_isEnabled ''r100'' ''T-12'' None ex_rollouts) = True"
proof -
  have q: "\<not> (\<exists>pt ps. (None :: string option) = Some pt \<and> pt \<noteq> [] \<and>
               f_enabledForPlans flag = Some ps \<and> pt \<notin> set ps)" for flag
    by simp
  have f: "find (\<lambda>f. f_key f = ''z'') (fst (FeatureFlagService_list ex_flagged))
             = Some ex_rollout_flag"
    by code_simp
  have s: "f_status ex_rollout_flag \<noteq> Disabled"
    and d: "\<not> includes_opt (f_disabledForTenants ex_rollout_flag) t"
    and a: "\<not> includes_opt (f_enabledForTenants ex_rollout_flag) t"
    and r: "f_rolloutPercentage ex_rollout_flag = Some 50" for t
    by (simp_all add: ex_rollout_flag_def includes_opt_def)
  have b12: "sum_list (map of_char ''T-12'') mod 100 = (28 :: nat)"
    and b1: "sum_list (map of_char ''T-1'') mod 100 = (78 :: nat)"
    by code_simp+
  have f0: "find (\<lambda>f. f_key f = ''r0'') (fst (FeatureFlagService_list ex_rollouts))
              = Some ex_closed_flag"
    by code_simp
  have s0: "f_status ex_closed_flag \<noteq> Disabled"
    and d0: "\<not> includes_opt (f_disabledForTenants ex_closed_flag) t"
    and a0: "\<not> includes_opt (f_enabledForTenants ex_closed_flag) t"
    and r0: "f_rolloutPercentage ex_closed_flag = Some 0" for t
    by (simp_all add: ex_closed_flag_def includes_opt_def)
  have f100: "find (\<lambda>f. f_key f = ''r100'') (fst (FeatureFlagService_list ex_rollouts))
              = Some ex_open_flag"
    by code_simp
  have s100: "f_status ex_open_flag \<noteq> Disabled"
    and e100: "f_status ex_open_flag = Enabled"
    and d100: "\<not> includes_opt (f_disabledForTenants ex_open_flag) t"
    and a100: "\<not> includes_opt (f_enabledForTenants ex_open_flag) t"
    and r100: "f_rolloutPercentage ex_open_flag = Some 100" for t
    by (simp_all add: ex_open_flag_def includes_opt_def)
  have v12: "fst (FeatureFlagService_isEnabled ''z'' ''T-12'' None ex_flagged) = True"
    using rollout_bucket_rule [OF f s d [of "''T-12''"] a [of "''T-12''"] q, where p = 50] r b12
    by simp
  have v1: "fst (FeatureFlagService_isEnabled ''z'' ''T-1'' None ex_flagged) = False"
    using rollout_bucket_rule [OF f s d [of "''T-1''"] a [of "''T-1''"] q, where p = 50] r b1
    by simp
  have v0: "fst (FeatureFlagService_isEnabled ''r0'' ''T-12'' None ex_rollouts) = False"
    using rollout_bucket_rule [OF f0 s0 d0 [of "''T-12''"] a0 [of "''T-12''"] q] r0 by simp
  have v100: "fst (FeatureFlagService_isEnabled ''r100'' ''T-12'' None ex_rollouts) = True"
    using rollout_bucket_rule [OF f100 s100 d100 [of "''T-12''"] a100 [of "''T-12''"] q] r100 e100
    by simp
  show ?thesis
    using f s d [of "''T-12''"] a [of "''T-12''"] r b12 b1 f0 r0 f100 r100 e100 v12 v1 v0 v100
    by blast
qed

section \<open>Properties of tenant resolution\<close>

lemma as_tenant_simps [simp]:
  "as_tenant None = None" "as_tenant (Some (VTenant t)) = Some t"
  by (simp_all add: as_tenant_def)

lemma resolve_hit_kv:
  assumes "as_tenant (map_of (kv w) (''tenant:'' @ identifier)) = Some t"
  shows "TenantService_resolve now identifier w =
           ((Some t, Some Src_kv), w\<lparr>calls := calls w @ [KvGet (''tenant:'' @ identifier)]\<rparr>)"
  using assms by (simp add: TenantService_resolve_def kv_get_def Let_def)

lemma resolve_hit_id:
  assumes "as_tenant (map_of (kv w) (''tenant:'' @ identifier)) = None"
    and "matches_uuid identifier"
    and "single (filter (\<lambda>r. pg_id r = identifier) (pg_tenants w)) = Some row"
  shows "TenantService_resolve now identifier w =
           ((Some (convert_by_uuid now row), Some Src_postgres),
            w\<lparr>calls := calls w @ [KvGet (''tenant:'' @ identifier), PgSelectById identifier]\<rparr>)"
  using assms
  by (simp add: TenantService_resolve_def kv_get_def pg_select_by_id_def Let_def)

lemma resolve_fall_through:
  assumes "as_tenant (map_of (kv w) (''tenant:'' @ identifier)) = None"
    and "\<not> matches_uuid identifier \<or>
         single (filter (\<lambda>r. pg_id r = identifier) (pg_tenants w)) = None"
  shows "TenantService_resolve now identifier w =
           ((case single (filter (\<lambda>r. settings_field s_external_id r = Some identifier)
                           (pg_tenants w)) of
               Some row \<Rightarrow> (Some (convert_by_external_id now row), Some Src_postgres)
             | None \<Rightarrow> (None, None)),
            w\<lparr>calls := calls w @ [KvGet (''tenant:'' @ identifier)] @
                 (if matches_uuid identifier then [PgSelectById identifier] else []) @
                 [PgSelectByExternalId identifier]\<rparr>)"
  using assms
  by (auto simp add: TenantService_resolve_def kv_get_def pg_select_by_id_def
      pg_select_by_external_id_def Let_def split: option.splits)

lemma filter_unique:
  assumes "x \<in> set xs" and "distinct xs" and "P x" and "\<forall>y\<in>set xs. P y \<longrightarrow> y = x"
  shows "filter P xs = [x]"
  using assms
proof (induction xs)
  case Nil
  then show ?case by simp
next
  case (Cons a xs)
  show ?case
  proof (cases "a = x")
    case True
    have "x \<notin> set xs"
      using Cons.prems(2) True by simp
    then have "\<forall>y\<in>set xs. \<not> P y"
      using Cons.prems(4) by auto
    then have "filter P xs = []"
      by (simp add: filter_empty_conv)
    then show ?thesis using True Cons.prems(3) by simp
  next
    case False
    then have na: "\<not> P a" using Cons.prems(4) by auto
    have "x \<in> set xs" using Cons.prems(1) False by simp
    moreover have "distinct xs" using Cons.prems(2) by simp
    moreover have "\<forall>y\<in>set xs. P y \<longrightarrow> y = x" using Cons.prems(4) by simp
    ultimately have "filter P xs = [x]"
      using Cons.IH Cons.prems(3) by blast
    then show ?thesis using na by simp
  qed
qed

lemma resolve_stores [simp]:
  "kv (snd (TenantService_resolve now identifier w)) = kv w"
  "pg_tenants (snd (TenantService_resolve now identifier w)) = pg_tenants w"
  by (simp_all add: TenantService_resolve_def kv_get_def pg_select_by_id_def
      pg_select_by_external_id_def Let_def split: option.splits)

text \<open>
  C3. \<open>resolve\<close> tries its sources in order and stops at the first hit: the fast store
  under \<open>tenant:<identifier>\<close>; then, only for an identifier of UUID shape, the tenants
  table by primary key; then, when that step does not apply or misses, the tenants table
  by the \<open>external_id\<close> of the settings; and with no match it returns a null tenant and a
  null source. The backend calls it makes are exactly those of the steps it reached, and
  it writes nothing.
\<close>

theorem resolve_tries_sources_in_order:
  fixes ident :: string and w :: world and now :: clock
  defines "key \<equiv> ''tenant:'' @ ident"
    and "byId \<equiv> single (filter (\<lambda>r. pg_id r = ident) (pg_tenants w))"
    and "byExternalId \<equiv>
           single (filter (\<lambda>r. settings_field s_external_id r = Some ident) (pg_tenants w))"
    and "result \<equiv> TenantService_resolve now ident w"
  shows
    "(as_tenant (map_of (kv w) key) = Some t \<longrightarrow>
        fst result = (Some t, Some Src_kv) \<and>
        calls (snd result) = calls w @ [KvGet key]) \<and>
     (as_tenant (map_of (kv w) key) = None \<and> matches_uuid ident \<and> byId = Some row \<longrightarrow>
        fst result = (Some (convert_by_uuid now row), Some Src_postgres) \<and>
        calls (snd result) = calls w @ [KvGet key, PgSelectById ident]) \<and>
     (as_tenant (map_of (kv w) key) = None \<and> (\<not> matches_uuid ident \<or> byId = None) \<longrightarrow>
        calls (snd result) =
          calls w @ [KvGet key] @
            (if matches_uuid ident then [PgSelectById ident] else []) @
            [PgSelectByExternalId ident] \<and>
        (byExternalId = Some row \<longrightarrow>
           fst result = (Some (convert_by_external_id now row), Some Src_postgres)) \<and>
        (byExternalId = None \<longrightarrow> fst result = (None, None))) \<and>
     kv (snd result) = kv w \<and> pg_tenants (snd result) = pg_tenants w"
proof -
  have a: "as_tenant (map_of (kv w) key) = Some t \<longrightarrow>
        fst result = (Some t, Some Src_kv) \<and>
        calls (snd result) = calls w @ [KvGet key]"
    unfolding result_def key_def by (auto simp add: resolve_hit_kv)
  have b: "as_tenant (map_of (kv w) key) = None \<and> matches_uuid ident \<and> byId = Some row \<longrightarrow>
        fst result = (Some (convert_by_uuid now row), Some Src_postgres) \<and>
        calls (snd result) = calls w @ [KvGet key, PgSelectById ident]"
    unfolding result_def key_def byId_def by (auto simp add: resolve_hit_id)
  have c: "as_tenant (map_of (kv w) key) = None \<and> (\<not> matches_uuid ident \<or> byId = None) \<longrightarrow>
        calls (snd result) =
          calls w @ [KvGet key] @
            (if matches_uuid ident then [PgSelectById ident] else []) @
            [PgSelectByExternalId ident] \<and>
        (byExternalId = Some row \<longrightarrow>
           fst result = (Some (convert_by_external_id now row), Some Src_postgres)) \<and>
        (byExternalId = None \<longrightarrow> fst result = (None, None))"
    unfolding result_def key_def byId_def byExternalId_def
    by (auto simp add: resolve_fall_through)
  have d: "kv (snd result) = kv w" "pg_tenants (snd result) = pg_tenants w"
    unfolding result_def by simp_all
  show ?thesis
    by (intro conjI a b c d)
qed

theorem resolve_tries_sources_in_order_witness:
  "as_tenant (map_of (kv ex_relational) (''tenant:'' @ ''T-404'')) = None \<and>
   \<not> matches_uuid ''T-404'' \<and>
   single (filter (\<lambda>r. settings_field s_external_id r = Some ''T-404'') (pg_tenants ex_relational))
     = None \<and>
   fst (TenantService_resolve ex_now ''T-404'' ex_relational) = (None, None) \<and>
   calls (snd (TenantService_resolve ex_now ''T-404'' ex_relational)) =
     [KvGet ''tenant:T-404'', PgSelectByExternalId ''T-404''] \<and>
   as_tenant (map_of (kv ex_relational) (''tenant:'' @ ''T-9'')) = Some ex_tenant \<and>
   fst (TenantService_resolve ex_now ''T-9'' ex_relational) = (Some ex_tenant, Some Src_kv) \<and>
   calls (snd (TenantService_resolve ex_now ''T-9'' ex_relational)) = [KvGet ''tenant:T-9''] \<and>
   as_tenant (map_of (kv ex_relational) (''tenant:'' @ pg_id ex_row)) = None \<and>
   matches_uuid (pg_id ex_row) \<and>
   single (filter (\<lambda>r. pg_id r = pg_id ex_row) (pg_tenants ex_relational)) = Some ex_row \<and>
   fst (TenantService_resolve ex_now (pg_id ex_row) ex_relational) =
     (Some (convert_by_uuid ex_now ex_row), Some Src_postgres) \<and>
   calls (snd (TenantService_resolve ex_now (pg_id ex_row) ex_relational)) =
     [KvGet (''tenant:'' @ pg_id ex_row), PgSelectById (pg_id ex_row)]"
proof -
  have c: "calls ex_relational = []"
    by (simp add: ex_relational_def)
  have k: "as_tenant (map_of (kv ex_relational) (''tenant:'' @ ''T-404'')) = None"
    and u: "\<not> matches_uuid ''T-404''"
    and e: "single (filter (\<lambda>r. settings_field s_external_id r = Some ''T-404'')
             (pg_tenants ex_relational)) = None"
    by code_simp+
  have k9: "as_tenant (map_of (kv ex_relational) (''tenant:'' @ ''T-9'')) = Some ex_tenant"
    by (simp add: ex_relational_def)
  have ku: "as_tenant (map_of (kv ex_relational) (''tenant:'' @ pg_id ex_row)) = None"
    and uu: "matches_uuid (pg_id ex_row)"
    by code_simp+
  have iu: "single (filter (\<lambda>r. pg_id r = pg_id ex_row) (pg_tenants ex_relational)) = Some ex_row"
    by (simp add: ex_relational_def ex_row_def ex_other_row_def single_def)
  have r404: "fst (TenantService_resolve ex_now ''T-404'' ex_relational) = (None, None) \<and>
      calls (snd (TenantService_resolve ex_now ''T-404'' ex_relational)) =
        [KvGet ''tenant:T-404'', PgSelectByExternalId ''T-404'']"
    using resolve_tries_sources_in_order [of ex_relational "''T-404''" _ ex_now] k u e c
    by simp
  have r9: "fst (TenantService_resolve ex_now ''T-9'' ex_relational) = (Some ex_tenant, Some Src_kv) \<and>
      calls (snd (TenantService_resolve ex_now ''T-9'' ex_relational)) = [KvGet ''tenant:T-9'']"
    using resolve_tries_sources_in_order [of ex_relational "''T-9''" ex_tenant ex_now] k9 c
    by simp
  have ru: "fst (TenantService_resolve ex_now (pg_id ex_row) ex_relational) =
        (Some (convert_by_uuid ex_now ex_row), Some Src_postgres) \<and>
      calls (snd (TenantService_resolve ex_now (pg_id ex_row) ex_relational)) =
        [KvGet (''tenant:'' @ pg_id ex_row), PgSelectById (pg_id ex_row)]"
    using resolve_tries_sources_in_order [of ex_relational "pg_id ex_row" _ ex_now ex_row] ku uu iu c
    by simp
  show ?thesis
    using k u e k9 ku uu iu r404 r9 ru by blast
qed

text \<open>
  C7 as stated fails when two rows carry the same external code, which nothing in the
  code excludes. The row \<open>ex_row\<close> has no fast-store record and the external code \<open>T-7\<close>
  in its settings, and so has a second row: \<open>resolve\<close> with the UUID of \<open>ex_row\<close> returns
  its translated record from the relational store, and \<open>resolve\<close> with \<open>T-7\<close> returns no
  tenant and no source.
\<close>

theorem shared_external_code_counterexample:
  "ex_row \<in> set (pg_tenants ex_shared_code) \<and>
   settings_field s_external_id ex_row = Some ''T-7'' \<and>
   kv ex_shared_code = [] \<and>
   fst (TenantService_resolve ex_now (pg_id ex_row) ex_shared_code)
     = (Some (convert_by_uuid ex_now ex_row), Some Src_postgres) \<and>
   fst (TenantService_resolve ex_now ''T-7'' ex_shared_code) = (None, None)"
proof -
  have m: "matches_uuid (pg_id ex_row)" "\<not> matches_uuid ''T-7''"
    by code_simp+
  have k: "as_tenant (map_of (kv ex_shared_code) (''tenant:'' @ pg_id ex_row)) = None"
    "as_tenant (map_of (kv ex_shared_code) (''tenant:'' @ ''T-7'')) = None"
    by (simp_all add: ex_shared_code_def)
  have byId: "single (filter (\<lambda>r. pg_id r = pg_id ex_row) (pg_tenants ex_shared_code))
                = Some ex_row"
    by (simp add: ex_shared_code_def ex_row_def ex_twin_row_def single_def)
  have byExt: "single (filter (\<lambda>r. settings_field s_external_id r = Some ''T-7'')
                         (pg_tenants ex_shared_code)) = None"
    by (simp add: ex_shared_code_def ex_row_def ex_twin_row_def ex_settings_def
        settings_field_def single_def)
  have u: "fst (TenantService_resolve ex_now (pg_id ex_row) ex_shared_code)
             = (Some (convert_by_uuid ex_now ex_row), Some Src_postgres)"
    using resolve_hit_id [OF k(1) m(1) byId, of ex_now] by simp
  have e: "fst (TenantService_resolve ex_now ''T-7'' ex_shared_code) = (None, None)"
    using resolve_fall_through [OF k(2), of ex_now] m(2) byExt by simp
  have "ex_row \<in> set (pg_tenants ex_shared_code)"
    and "settings_field s_external_id ex_row = Some ''T-7''"
    and "kv ex_shared_code = []"
    by (simp_all add: ex_shared_code_def ex_row_def ex_settings_def settings_field_def)
  with u e show ?thesis
    by (intro conjI)
qed

text \<open>
  C7, amended. Take a row of the tenants table with an \<open>external_id\<close> in its settings and
  no fast-store record under its UUID or under its external code. When the primary keys
  of the table are distinct, the row's key has the UUID shape, no other row carries the
  external code, and the code, if it has the UUID shape itself, is not the primary key of
  another row, then \<open>resolve\<close> with the row's UUID and \<open>resolve\<close> with its external code
  return the same translated record, with the relational store as the source in both
  cases. Across two clocks the two translations can differ in the \<open>created\<close> date only.
\<close>

theorem resolve_same_by_uuid_and_external_code:
  assumes "row \<in> set (pg_tenants w)"
    and "distinct (map pg_id (pg_tenants w))"
    and "matches_uuid (pg_id row)"
    and "settings_field s_external_id row = Some code"
    and "\<forall>r\<in>set (pg_tenants w). settings_field s_external_id r = Some code \<longrightarrow> r = row"
    and "matches_uuid code \<longrightarrow> (\<forall>r\<in>set (pg_tenants w). pg_id r = code \<longrightarrow> r = row)"
    and "as_tenant (map_of (kv w) (''tenant:'' @ pg_id row)) = None"
    and "as_tenant (map_of (kv w) (''tenant:'' @ code)) = None"
  shows "fst (TenantService_resolve now (pg_id row) w) = fst (TenantService_resolve now code w) \<and>
         fst (TenantService_resolve now (pg_id row) w)
           = (Some (convert_by_uuid now row), Some Src_postgres) \<and>
         fst (TenantService_resolve now code w)
           = (Some (convert_by_external_id now row), Some Src_postgres) \<and>
         t_id (convert_by_uuid now row) = (if code = [] then pg_id row else code) \<and>
         t_uuid (convert_by_uuid now row) = Some (pg_id row) \<and>
         t_name (convert_by_uuid now row) = pg_name row \<and>
         t_status (convert_by_uuid now row) = pg_status row \<and>
         t_plan (convert_by_uuid now row) = js_or_str (settings_field s_plan row) ''Trial'' \<and>
         convert_by_external_id later row =
           (convert_by_uuid now row)\<lparr>t_created := t_created (convert_by_external_id later row)\<rparr>"
proof -
  have dist: "distinct (pg_tenants w)"
    using assms(2) by (simp add: distinct_map)
  have "\<forall>r\<in>set (pg_tenants w). pg_id r = pg_id row \<longrightarrow> r = row"
    using assms(1,2) by (meson distinct_map inj_onD)
  then have byId: "filter (\<lambda>r. pg_id r = pg_id row) (pg_tenants w) = [row]"
    using filter_unique [OF assms(1) dist, of "\<lambda>r. pg_id r = pg_id row"] by simp
  have byExt: "filter (\<lambda>r. settings_field s_external_id r = Some code) (pg_tenants w) = [row]"
    using filter_unique [OF assms(1) dist, of "\<lambda>r. settings_field s_external_id r = Some code"]
      assms(4,5) by simp
  have same: "convert_by_uuid now row = convert_by_external_id now row"
    by (simp add: convert_by_uuid_def convert_by_external_id_def)
  have u: "fst (TenantService_resolve now (pg_id row) w)
           = (Some (convert_by_uuid now row), Some Src_postgres)"
    using resolve_hit_id [OF assms(7) assms(3), of row now] byId by (simp add: single_def)
  have e: "fst (TenantService_resolve now code w)
           = (Some (convert_by_external_id now row), Some Src_postgres)"
  proof (cases "matches_uuid code \<and> code = pg_id row")
    case True
    then show ?thesis
      using u same by simp
  next
    case False
    have "filter (\<lambda>r. pg_id r = code) (pg_tenants w) = []" if "matches_uuid code"
    proof -
      have "pg_id r \<noteq> code" if "r \<in> set (pg_tenants w)" for r
        using assms(6) \<open>matches_uuid code\<close> that False by auto
      then show ?thesis
        by (simp add: filter_empty_conv)
    qed
    then have "\<not> matches_uuid code \<or>
               single (filter (\<lambda>r. pg_id r = code) (pg_tenants w)) = None"
      by (auto simp add: single_def)
    then show ?thesis
      using resolve_fall_through [OF assms(8), of now] byExt by (simp add: single_def)
  qed
  have fields: "t_id (convert_by_uuid now row) = (if code = [] then pg_id row else code)"
    "t_uuid (convert_by_uuid now row) = Some (pg_id row)"
    "t_name (convert_by_uuid now row) = pg_name row"
    "t_status (convert_by_uuid now row) = pg_status row"
    "t_plan (convert_by_uuid now row) = js_or_str (settings_field s_plan row) ''Trial''"
    using assms(4) by (simp_all add: convert_by_uuid_def js_or_str_def)
  have clocks: "convert_by_external_id later row =
           (convert_by_uuid now row)\<lparr>t_created := t_created (convert_by_external_id later row)\<rparr>"
    by (simp add: convert_by_uuid_def convert_by_external_id_def)
  show ?thesis
    using u e same fields clocks by simp
qed

theorem resolve_same_by_uuid_and_external_code_witness:
  "ex_row \<in> set (pg_tenants ex_relational) \<and>
   distinct (map pg_id (pg_tenants ex_relational)) \<and>
   matches_uuid (pg_id ex_row) \<and>
   settings_field s_external_id ex_row = Some ''T-7'' \<and>
   filter (\<lambda>r. settings_field s_external_id r = Some ''T-7'') (pg_tenants ex_relational)
     = [ex_row] \<and>
   \<not> matches_uuid ''T-7'' \<and>
   as_tenant (map_of (kv ex_relational) (''tenant:'' @ pg_id ex_row)) = None \<and>
   as_tenant (map_of (kv ex_relational) (''tenant:'' @ ''T-7'')) = None \<and>
   fst (TenantService_resolve ex_now (pg_id ex_row) ex_relational) =
     fst (TenantService_resolve ex_now ''T-7'' ex_relational) \<and>
   t_id (convert_by_uuid ex_now ex_row) = ''T-7''"
proof -
  have 1: "ex_row \<in> set (pg_tenants ex_relational)"
    by (simp add: ex_relational_def)
  have 2: "distinct (map pg_id (pg_tenants ex_relational))"
    by (simp add: ex_relational_def ex_row_def ex_other_row_def)
  have 3: "matches_uuid (pg_id ex_row)"
    by code_simp
  have 4: "settings_field s_external_id ex_row = Some ''T-7''"
    by (simp add: settings_field_def ex_row_def ex_settings_def)
  have n: "\<not> matches_uuid ''T-7''"
    by code_simp
  have 5: "\<forall>r\<in>set (pg_tenants ex_relational).
             settings_field s_external_id r = Some ''T-7'' \<longrightarrow> r = ex_row"
    by (simp add: ex_relational_def settings_field_def ex_other_row_def)
  have 6: "matches_uuid ''T-7'' \<longrightarrow>
             (\<forall>r\<in>set (pg_tenants ex_relational). pg_id r = ''T-7'' \<longrightarrow> r = ex_row)"
    using n by simp
  have 7: "as_tenant (map_of (kv ex_relational) (''tenant:'' @ pg_id ex_row)) = None"
    by code_simp
  have 8: "as_tenant (map_of (kv ex_relational) (''tenant:'' @ ''T-7'')) = None"
    by code_simp
  from resolve_same_by_uuid_and_external_code [OF 1 2 3 4 5 6 7 8, of ex_now]
  have "fst (TenantService_resolve ex_now (pg_id ex_row) ex_relational) =
          fst (TenantService_resolve ex_now ''T-7'' ex_relational)"
    and "t_id (convert_by_uuid ex_now ex_row) = ''T-7''"
    by simp_all
  moreover have "filter (\<lambda>r. settings_field s_external_id r = Some ''T-7'')
                   (pg_tenants ex_relational) = [ex_row]"
    by (simp add: ex_relational_def settings_field_def ex_other_row_def ex_row_def ex_settings_def)
  ultimately show ?thesis using 1 2 3 4 n 7 8 by blast
qed

end
